theory Spec2Isabelle
  imports Complex_Main "HOL-Library.Sublist"
begin

section \<open>Conventions of the embedding\<close>

text \<open>
  The JavaScript sources are embedded function by function.

  \<^item> An \<open>ethers.BigNumber\<close> (arbitrary precision, signed) is an \<open>int\<close>.
  \<^item> A JavaScript number that only counts (\<open>consecutiveFailures\<close>, \<open>totalTrades\<close>) is a
    \<open>nat\<close>; a millisecond time stamp (\<open>Date.now()\<close>) is an \<open>int\<close> passed in as the
    argument \<open>now\<close>; every other JavaScript number is an exact \<open>real\<close> (the rounding of
    IEEE doubles is not represented; where the source can produce \<open>NaN\<close> the model says
    so explicitly).
  \<^item> \<open>null\<close> is \<open>None\<close>.
  \<^item> Mutation of \<open>this\<close> is explicit state passing; logging is dropped.
\<close>

section \<open>RiskManager\<close>

record riskParams =
  maxDailyLoss :: int
  maxSingleTradeLoss :: int
  minProfitThreshold :: int
  maxSlippage :: int
  maxGasPrice :: int
  maxLiquidityUtilization :: int
  cooldownPeriod :: int
  maxConsecutiveFailures :: nat
  volatilityThreshold :: real
  liquidityThreshold :: int

record riskState =
  dailyLoss :: int
  dailyProfit :: int
  consecutiveFailures :: nat
  lastTradeTime :: int
  totalTrades :: nat
  successfulTrades :: nat
  lastResetTime :: int
  isPaused :: bool
  pauseReason :: "string option"

text \<open>The opportunity object built by \<open>ArbitrageCalculator.findArbitrageOpportunity\<close>.\<close>

record opportunity =
  token0 :: string
  token1 :: string
  asset :: string
  amount :: int
  estimatedProfit :: int
  profitability :: real
  path1 :: "string list"
  path2 :: "string list"
  router1 :: string
  router2 :: string
  minProfit :: int
  timestamp :: int

text \<open>The result object of \<open>FlashbotsExecutor.executeBundle\<close>.\<close>

record executionResult =
  success :: bool
  error :: "string option"
  bundleHash :: "string option"
  txHash :: "string option"
  blockNumber :: "nat option"

record trade =
  trade_timestamp :: int
  trade_opportunity :: opportunity
  trade_result :: executionResult
  trade_profit :: int
  trade_loss :: int

record riskManager =
  riskParams :: riskParams
  riskState :: riskState
  tradeHistory :: "trade list"
  maxHistorySize :: nat

definition parseEther :: "int \<Rightarrow> int" where
  "parseEther n = n * 10 ^ 18"

definition parseGwei :: "int \<Rightarrow> int" where
  "parseGwei n = n * 10 ^ 9"

text \<open>\<open>formatEther\<close> followed by \<open>parseFloat\<close>: the amount in ether as a number.\<close>

definition etherFloat :: "int \<Rightarrow> real" where
  "etherFloat w = real_of_int w / 10 ^ 18"

text \<open>\<open>BigNumber.div\<close> truncates towards zero.\<close>

definition bn_div :: "int \<Rightarrow> int \<Rightarrow> int" where
  "bn_div a b = sgn a * sgn b * (\<bar>a\<bar> div \<bar>b\<bar>)"

text \<open>The decimal digits of a counter, as the template literal prints it.\<close>

function string_of_nat :: "nat \<Rightarrow> string" where
  "string_of_nat n =
     (if n < 10 then [''0123456789'' ! n]
      else string_of_nat (n div 10) @ [''0123456789'' ! (n mod 10)])"
  by pat_completeness auto
termination
  by (relation "measure (\<lambda>n. n)") auto

declare string_of_nat.simps [simp del]

text \<open>The constructor: the default parameters and the zero state created at time \<open>now\<close>.\<close>

definition defaultRiskParams :: riskParams where
  "defaultRiskParams =
     \<lparr> maxDailyLoss = parseEther 1,
       maxSingleTradeLoss = 10 ^ 17,
       minProfitThreshold = 10 ^ 15,
       maxSlippage = 5,
       maxGasPrice = parseGwei 100,
       maxLiquidityUtilization = 90,
       cooldownPeriod = 60000,
       maxConsecutiveFailures = 3,
       volatilityThreshold = 1 / 10,
       liquidityThreshold = parseEther 10 \<rparr>"

definition initialRiskState :: "int \<Rightarrow> riskState" where
  "initialRiskState now =
     \<lparr> dailyLoss = 0, dailyProfit = 0, consecutiveFailures = 0, lastTradeTime = 0,
       totalTrades = 0, successfulTrades = 0, lastResetTime = now,
       isPaused = False, pauseReason = None \<rparr>"

definition newRiskManager :: "int \<Rightarrow> riskManager" where
  "newRiskManager now =
     \<lparr> riskParams = defaultRiskParams, riskState = initialRiskState now,
       tradeHistory = [], maxHistorySize = 1000 \<rparr>"

subsection \<open>Pause, resume and the daily reset\<close>

definition pauseSystem :: "string \<Rightarrow> riskManager \<Rightarrow> riskManager" where
  "pauseSystem reason m =
     m\<lparr>riskState := (riskState m)\<lparr>isPaused := True, pauseReason := Some reason\<rparr>\<rparr>"

definition resumeSystem :: "riskManager \<Rightarrow> riskManager" where
  "resumeSystem m =
     m\<lparr>riskState := (riskState m)\<lparr>isPaused := False, pauseReason := None,
                                     consecutiveFailures := 0\<rparr>\<rparr>"

definition oneDayMs :: int where
  "oneDayMs = 24 * 60 * 60 * 1000"

definition resetDailyCountersIfNeeded :: "int \<Rightarrow> riskManager \<Rightarrow> riskManager" where
  "resetDailyCountersIfNeeded now m =
     (let timeSinceReset = now - lastResetTime (riskState m) in
      if timeSinceReset \<ge> oneDayMs
      then m\<lparr>riskState := (riskState m)\<lparr>dailyLoss := 0, dailyProfit := 0,
                                          lastResetTime := now\<rparr>\<rparr>
      else m)"

subsection \<open>Recording a trade result\<close>

definition recordTradeResult ::
  "opportunity \<Rightarrow> executionResult \<Rightarrow> int \<Rightarrow> riskManager \<Rightarrow> riskManager" where
  "recordTradeResult opp result now m =
     (let tr = \<lparr> trade_timestamp = now, trade_opportunity = opp, trade_result = result,
                  trade_profit = (if success result then estimatedProfit opp else 0),
                  trade_loss = (if success result then 0 else estimatedProfit opp) \<rparr>;
          pushed = tradeHistory m @ [tr];
          hist = (if length pushed > maxHistorySize m then tl pushed else pushed);
          s0 = (riskState m)\<lparr>totalTrades := totalTrades (riskState m) + 1,
                              lastTradeTime := now\<rparr>;
          m0 = m\<lparr>tradeHistory := hist\<rparr>
      in if success result
         then m0\<lparr>riskState := s0\<lparr>successfulTrades := successfulTrades s0 + 1,
                                   consecutiveFailures := 0,
                                   dailyProfit := dailyProfit s0 + estimatedProfit opp\<rparr>\<rparr>
         else
           (let s1 = s0\<lparr>consecutiveFailures := consecutiveFailures s0 + 1,
                         dailyLoss := dailyLoss s0 + estimatedProfit opp\<rparr>;
                m1 = m0\<lparr>riskState := s1\<rparr>
            in if consecutiveFailures s1 \<ge> maxConsecutiveFailures (riskParams m)
               then pauseSystem (''Too many consecutive failures: ''
                                  @ string_of_nat (consecutiveFailures s1)) m1
               else m1))"

subsection \<open>The ten risk checks\<close>

record riskCheck =
  name :: string
  passed :: bool
  weight :: real

definition estimatedLoss :: "riskParams \<Rightarrow> opportunity \<Rightarrow> int" where
  "estimatedLoss p opp = bn_div (amount opp * maxSlippage p) 100"

definition checkProfitThreshold :: "riskManager \<Rightarrow> opportunity \<Rightarrow> riskCheck" where
  "checkProfitThreshold m opp =
     \<lparr> name = ''profit_threshold'',
       passed = (estimatedProfit opp \<ge> minProfitThreshold (riskParams m)),
       weight = 2 / 10 \<rparr>"

definition checkDailyLossLimit :: "riskManager \<Rightarrow> opportunity \<Rightarrow> riskCheck" where
  "checkDailyLossLimit m opp =
     (let potentialDailyLoss = dailyLoss (riskState m) + estimatedLoss (riskParams m) opp in
      \<lparr> name = ''daily_loss_limit'',
        passed = (potentialDailyLoss \<le> maxDailyLoss (riskParams m)),
        weight = 3 / 10 \<rparr>)"

definition checkSingleTradeLossLimit :: "riskManager \<Rightarrow> opportunity \<Rightarrow> riskCheck" where
  "checkSingleTradeLossLimit m opp =
     \<lparr> name = ''single_trade_loss_limit'',
       passed = (estimatedLoss (riskParams m) opp \<le> maxSingleTradeLoss (riskParams m)),
       weight = 2 / 10 \<rparr>"

definition estimateSlippage :: "opportunity \<Rightarrow> real" where
  "estimateSlippage opp =
     (let baseSlippage = 1 / 10;
          amountETH = etherFloat (amount opp);
          sizeMultiplier = min (amountETH / 10) 5
      in baseSlippage * (1 + sizeMultiplier))"

definition checkSlippage :: "riskManager \<Rightarrow> opportunity \<Rightarrow> riskCheck" where
  "checkSlippage m opp =
     \<lparr> name = ''slippage_check'',
       passed = (estimateSlippage opp \<le> real_of_int (maxSlippage (riskParams m))),
       weight = 15 / 100 \<rparr>"

definition checkGasPrice :: "riskManager \<Rightarrow> riskCheck" where
  "checkGasPrice m =
     (let currentGasPrice = parseGwei 50 in
      \<lparr> name = ''gas_price_check'',
        passed = (currentGasPrice \<le> maxGasPrice (riskParams m)),
        weight = 1 / 10 \<rparr>)"

definition checkLiquidityUtilization :: "riskManager \<Rightarrow> opportunity \<Rightarrow> riskCheck" where
  "checkLiquidityUtilization m opp =
     (let utilizationPercentage = 75 in
      \<lparr> name = ''liquidity_utilization'',
        passed = (utilizationPercentage \<le> maxLiquidityUtilization (riskParams m)),
        weight = 1 / 10 \<rparr>)"

definition checkCooldownPeriod :: "int \<Rightarrow> riskManager \<Rightarrow> riskCheck" where
  "checkCooldownPeriod now m =
     (let timeSinceLastTrade = now - lastTradeTime (riskState m) in
      \<lparr> name = ''cooldown_period'',
        passed = (timeSinceLastTrade \<ge> cooldownPeriod (riskParams m)),
        weight = 5 / 100 \<rparr>)"

definition checkConsecutiveFailures :: "riskManager \<Rightarrow> riskCheck" where
  "checkConsecutiveFailures m =
     \<lparr> name = ''consecutive_failures'',
       passed = (consecutiveFailures (riskState m) < maxConsecutiveFailures (riskParams m)),
       weight = 2 / 10 \<rparr>"

definition checkVolatility :: "riskManager \<Rightarrow> opportunity \<Rightarrow> riskCheck" where
  "checkVolatility m opp =
     (let volatility = 5 / 100 in
      \<lparr> name = ''volatility_check'',
        passed = (volatility \<le> volatilityThreshold (riskParams m)),
        weight = 15 / 100 \<rparr>)"

definition checkLiquidityThreshold :: "riskManager \<Rightarrow> opportunity \<Rightarrow> riskCheck" where
  "checkLiquidityThreshold m opp =
     (let availableLiquidity = parseEther 50 in
      \<lparr> name = ''liquidity_threshold'',
        passed = (availableLiquidity \<ge> liquidityThreshold (riskParams m)),
        weight = 1 / 10 \<rparr>)"

definition riskChecks :: "int \<Rightarrow> riskManager \<Rightarrow> opportunity \<Rightarrow> riskCheck list" where
  "riskChecks now m opp =
     [ checkProfitThreshold m opp,
       checkDailyLossLimit m opp,
       checkSingleTradeLossLimit m opp,
       checkSlippage m opp,
       checkGasPrice m,
       checkLiquidityUtilization m opp,
       checkCooldownPeriod now m,
       checkConsecutiveFailures m,
       checkVolatility m opp,
       checkLiquidityThreshold m opp ]"

subsection \<open>Risk score and assessment\<close>

text \<open>
  The loop of \<open>calculateRiskScore\<close> carries the pair \<open>(totalWeight, weightedScore)\<close>
  through the checks.
\<close>

fun scoreLoop :: "riskCheck list \<Rightarrow> real \<times> real \<Rightarrow> real \<times> real" where
  "scoreLoop [] acc = acc"
| "scoreLoop (c # cs) (totalWeight, weightedScore) =
     scoreLoop cs (totalWeight + weight c,
                   weightedScore + (if passed c then 0 else weight c))"

definition calculateRiskScore :: "riskCheck list \<Rightarrow> real" where
  "calculateRiskScore cs =
     (case scoreLoop cs (0, 0) of
        (totalWeight, weightedScore) \<Rightarrow>
          if totalWeight > 0 then weightedScore / totalWeight else 1)"

text \<open>
  The reason of an assessment. The source prints the failed check as
  \<open>name: value exceeds threshold\<close>; the model keeps the name of that check and leaves the
  two display strings out.
\<close>

datatype reason =
  SystemPaused "string option"
  | RiskAssessmentPassed
  | HighRiskScore
  | CheckExceeds string

fun primaryFailure :: "riskCheck \<Rightarrow> riskCheck list \<Rightarrow> riskCheck" where
  "primaryFailure prev [] = prev"
| "primaryFailure prev (current # cs) =
     primaryFailure (if weight prev > weight current then prev else current) cs"

definition getFailureReason :: "riskCheck list \<Rightarrow> reason" where
  "getFailureReason cs =
     (case filter (\<lambda>c. \<not> passed c) cs of
        [] \<Rightarrow> HighRiskScore
      | f # fs \<Rightarrow> CheckExceeds (name (primaryFailure f fs)))"

record assessment =
  approved :: bool
  assess_reason :: reason
  riskScore :: real
  checks :: "riskCheck list"

text \<open>
  \<open>assessRisk\<close> first resets the daily counters when a day has passed, so it returns the
  updated manager with the assessment. With well-typed arguments nothing in its body
  throws, so the \<open>catch\<close> branch is not reachable in the model.
\<close>

definition assessRisk :: "opportunity \<Rightarrow> int \<Rightarrow> riskManager \<Rightarrow> assessment \<times> riskManager" where
  "assessRisk opp now m =
     (let m' = resetDailyCountersIfNeeded now m in
      if isPaused (riskState m')
      then (\<lparr> approved = False, assess_reason = SystemPaused (pauseReason (riskState m')),
               riskScore = 1, checks = [] \<rparr>, m')
      else
        (let cs = riskChecks now m' opp;
             score = calculateRiskScore cs;
             ok = (list_all passed cs \<and> score < 7 / 10)
         in (\<lparr> approved = ok,
                assess_reason = (if ok then RiskAssessmentPassed else getFailureReason cs),
                riskScore = score, checks = cs \<rparr>, m')))"

subsection \<open>Sequences of calls on the risk manager\<close>

datatype riskCall =
  RecordTradeResult opportunity executionResult int
  | AssessRisk opportunity int
  | PauseSystem string
  | ResumeSystem

fun call :: "riskCall \<Rightarrow> riskManager \<Rightarrow> riskManager" where
  "call (RecordTradeResult opp result now) m = recordTradeResult opp result now m"
| "call (AssessRisk opp now) m = snd (assessRisk opp now m)"
| "call (PauseSystem reason) m = pauseSystem reason m"
| "call ResumeSystem m = resumeSystem m"

fun calls :: "riskCall list \<Rightarrow> riskManager \<Rightarrow> riskManager" where
  "calls [] m = m"
| "calls (c # cs) m = calls cs (call c m)"


text \<open>Sample values on which the statements below are evaluated.\<close>

definition WETH :: string where
  "WETH = ''0xC02aaA39b223FE8D0A0e5C4F27eAD9083C756Cc2''"

definition DAI :: string where
  "DAI = ''0x6B175474E89094C44Da98b954EedeAC495271d0F''"

definition sampleOpportunity :: opportunity where
  "sampleOpportunity =
     \<lparr> token0 = ''WETH'', token1 = ''DAI'', asset = WETH,
       amount = parseEther 1, estimatedProfit = 2 * 10 ^ 15, profitability = 2 / 1000,
       path1 = [WETH, DAI], path2 = [DAI, WETH],
       router1 = ''0x7a250d5630B4cF539739dF2C5dAcb4c659F2488D'',
       router2 = ''0xd9e1cE17f2641f24aE83637ab66a2cca9C378B9F'',
       minProfit = 19 * 10 ^ 14, timestamp = 0 \<rparr>"

definition failedResult :: executionResult where
  "failedResult =
     \<lparr> success = False, error = Some ''Bundle not included within wait period'',
       bundleHash = Some ''0xb1'', txHash = None, blockNumber = None \<rparr>"

definition okResult :: executionResult where
  "okResult =
     \<lparr> success = True, error = None, bundleHash = Some ''0xb1'',
       txHash = Some ''0x71'', blockNumber = Some 101 \<rparr>"

definition threeFailures :: "riskCall list" where
  "threeFailures =
     [ RecordTradeResult sampleOpportunity failedResult 1000,
       RecordTradeResult sampleOpportunity failedResult 2000,
       RecordTradeResult sampleOpportunity failedResult 3000 ]"

section \<open>QuantumSignalProcessor\<close>

text \<open>
  A value read from the parsed output of the scoring script: a finite number, one of the
  non-finite numbers, or something that is not a number at all.
\<close>

datatype jsvalue = Num real | NaN | PosInfinity | NegInfinity | Undefined

record signal =
  signal_strength :: jsvalue
  confidence :: jsvalue
  quantum_features :: "real list"
  signal_timestamp :: string
  source :: string

text \<open>
  What \<open>runPythonScript\<close> resolves to: the parsed JSON of the script, or an object with an
  \<open>error\<close> field. The promise never rejects.
\<close>

record scriptResult =
  result_error :: "string option"
  result_signal_strength :: jsvalue
  result_confidence :: jsvalue
  result_quantum_features :: "real list"
  result_timestamp :: string

text \<open>JavaScript truthiness of an optional string: \<open>null\<close> and \<open>''\<close> are falsy.\<close>

definition truthy :: "string option \<Rightarrow> bool" where
  "truthy v = (case v of None \<Rightarrow> False | Some s \<Rightarrow> s \<noteq> [])"

definition profitScore :: "opportunity \<Rightarrow> real" where
  "profitScore opp = min (profitability opp * 10) 1"

definition amountScore :: "opportunity \<Rightarrow> real" where
  "amountScore opp = min (real_of_int (amount opp) / 10 ^ 20) 1"

definition getFallbackSignal :: "opportunity \<Rightarrow> string \<Rightarrow> signal" where
  "getFallbackSignal opp isoNow =
     (let strength = (profitScore opp + amountScore opp) / 2;
          conf = max (3 / 10) (min (8 / 10) strength)
      in \<lparr> signal_strength = Num strength, confidence = Num conf,
           quantum_features = [0, 0, 0, 0], signal_timestamp = isoNow,
           source = ''fallback'' \<rparr>)"

text \<open>The specification's \<open>clamp(x, lo, hi)\<close>.\<close>

definition clamp :: "real \<Rightarrow> real \<Rightarrow> real \<Rightarrow> real" where
  "clamp x lo hi = (if x < lo then lo else if x > hi then hi else x)"

text \<open>
  \<open>processSignal\<close>: \<open>run\<close> is the outcome of the \<open>try\<close> body up to the awaited script
  (\<open>Inl\<close> when it throws), \<open>isoNow\<close> the time stamp a fallback signal would carry.
\<close>

definition processSignal ::
  "bool \<Rightarrow> string + scriptResult \<Rightarrow> opportunity \<Rightarrow> string \<Rightarrow> signal" where
  "processSignal isInitialized run opp isoNow =
     (if \<not> isInitialized then getFallbackSignal opp isoNow
      else case run of
             Inl e \<Rightarrow> getFallbackSignal opp isoNow
           | Inr result \<Rightarrow>
               if truthy (result_error result) then getFallbackSignal opp isoNow
               else \<lparr> signal_strength = result_signal_strength result,
                      confidence = result_confidence result,
                      quantum_features = result_quantum_features result,
                      signal_timestamp = result_timestamp result,
                      source = ''quantum'' \<rparr>)"

definition isNumberInUnit :: "jsvalue \<Rightarrow> bool" where
  "isNumberInUnit v = (case v of Num r \<Rightarrow> 0 \<le> r \<and> r \<le> 1 | _ \<Rightarrow> False)"

text \<open>
  \<open>validateSignal\<close>: both fields have type number and lie in \<open>[0, 1]\<close>. Every comparison
  with \<open>NaN\<close> is false, and the infinities are outside the interval.
\<close>

definition validateSignal :: "signal \<Rightarrow> bool" where
  "validateSignal sig =
     (isNumberInUnit (signal_strength sig) \<and> isNumberInUnit (confidence sig))"

definition outOfRangeResult :: scriptResult where
  "outOfRangeResult =
     \<lparr> result_error = None, result_signal_strength = Num (3 / 2),
       result_confidence = Num 2, result_quantum_features = [0, 1, 0, 1],
       result_timestamp = ''2024-01-01T00:00:00'' \<rparr>"

section \<open>ArbitrageCalculator\<close>

datatype dex = UNISWAP_V2 | SUSHISWAP | UNISWAP_V3

definition routers :: "dex \<Rightarrow> string" where
  "routers d =
     (case d of
        UNISWAP_V2 \<Rightarrow> ''0x7a250d5630B4cF539739dF2C5dAcb4c659F2488D''
      | SUSHISWAP \<Rightarrow> ''0xd9e1cE17f2641f24aE83637ab66a2cca9C378B9F''
      | UNISWAP_V3 \<Rightarrow> ''0xE592427A0AEce92De3Edee1F18E0157C05861564'')"

definition tokens :: "string \<Rightarrow> string option" where
  "tokens =
     map_of
       [ (''WETH'', WETH),
         (''DAI'', DAI),
         (''USDC'', ''0xA0b86a33E6441E6C5E6c7c8b0E0c4B5c5c5c5c5c''),
         (''USDT'', ''0xdAC17F958D2ee523a2206206994597C13D831ec7''),
         (''WBTC'', ''0x2260FAC5E5542a773Aa44fBCfeDf7C193bc2C599'') ]"

text \<open>
  The chain as the calculator sees it: the router call \<open>getAmountsOut(amountIn, path)\<close>
  and \<open>provider.getGasPrice()\<close>. \<open>Inl\<close> carries the message of a thrown error.
\<close>

record chain =
  getAmountsOut :: "dex \<Rightarrow> int \<Rightarrow> string list \<Rightarrow> string + int list"
  getGasPrice :: "string + int"

text \<open>
  \<open>getAmountOut\<close> answers \<open>null\<close> for Uniswap V3 and on any error; the last element of an
  empty array is \<open>undefined\<close>, which every caller treats like \<open>null\<close>.
\<close>

definition getAmountOut :: "chain \<Rightarrow> string \<Rightarrow> string \<Rightarrow> int \<Rightarrow> dex \<Rightarrow> int option" where
  "getAmountOut env tokenIn tokenOut amountIn d =
     (if d = UNISWAP_V3 then None
      else case getAmountsOut env d amountIn [tokenIn, tokenOut] of
             Inl e \<Rightarrow> None
           | Inr amounts \<Rightarrow> if amounts = [] then None else Some (last amounts))"

record priceQuote =
  amountIn :: int
  amountOut :: int
  price :: int
  quote_dex :: dex

text \<open>\<open>BigNumber.div\<close> throws on a zero divisor; \<open>getPrice\<close> catches and answers \<open>null\<close>.\<close>

definition getPrice :: "chain \<Rightarrow> string \<Rightarrow> string \<Rightarrow> int \<Rightarrow> dex \<Rightarrow> priceQuote option" where
  "getPrice env tokenIn tokenOut amtIn d =
     (case getAmountOut env tokenIn tokenOut amtIn d of
        None \<Rightarrow> None
      | Some out \<Rightarrow>
          if amtIn = 0 then None
          else Some \<lparr> amountIn = amtIn, amountOut = out,
                      price = bn_div (out * parseEther 1) amtIn, quote_dex = d \<rparr>)"

record candidate =
  profit :: int
  cand_amount :: int
  cand_path1 :: "string list"
  cand_path2 :: "string list"
  cand_router1 :: string
  cand_router2 :: string
  route :: string

text \<open>One of the two round trips: buy on \<open>buyDex\<close>, sell on \<open>sellDex\<close>.\<close>

definition roundTrip ::
  "chain \<Rightarrow> string \<Rightarrow> string \<Rightarrow> int \<Rightarrow> priceQuote option \<Rightarrow> priceQuote option
     \<Rightarrow> dex \<Rightarrow> dex \<Rightarrow> string \<Rightarrow> candidate list" where
  "roundTrip env t0 t1 amt buy sell buyDex sellDex label =
     (case (buy, sell) of
        (Some b, Some s) \<Rightarrow>
          (let intermediateAmount = amountOut b in
           case getAmountOut env t1 t0 intermediateAmount sellDex of
             None \<Rightarrow> []
           | Some finalAmount \<Rightarrow>
               if finalAmount > amt
               then [\<lparr> profit = finalAmount - amt, cand_amount = amt,
                       cand_path1 = [t0, t1], cand_path2 = [t1, t0],
                       cand_router1 = routers buyDex, cand_router2 = routers sellDex,
                       route = label \<rparr>]
               else [])
      | _ \<Rightarrow> [])"

definition calculateArbitrageProfit ::
  "chain \<Rightarrow> string \<Rightarrow> string \<Rightarrow> int \<Rightarrow> candidate option" where
  "calculateArbitrageProfit env t0 t1 amt =
     (let uniV2_0to1 = getPrice env t0 t1 amt UNISWAP_V2;
          sushi_0to1 = getPrice env t0 t1 amt SUSHISWAP;
          uniV2_1to0 = getPrice env t1 t0 amt UNISWAP_V2;
          sushi_1to0 = getPrice env t1 t0 amt SUSHISWAP;
          opportunities =
            roundTrip env t0 t1 amt uniV2_0to1 sushi_1to0 UNISWAP_V2 SUSHISWAP
              ''UNI_V2 -> SUSHI''
            @ roundTrip env t0 t1 amt sushi_0to1 uniV2_1to0 SUSHISWAP UNISWAP_V2
              ''SUSHI -> UNI_V2''
      in case opportunities of
           [] \<Rightarrow> None
         | c # cs \<Rightarrow>
             Some (foldl (\<lambda>best current.
                            if profit current > profit best then current else best) c cs))"

definition testAmounts :: "int list" where
  "testAmounts = [parseEther 1, parseEther 5, parseEther 10, parseEther 50, parseEther 100]"

text \<open>The loop over the test amounts carries \<open>(bestOpportunity, maxProfit)\<close>.\<close>

fun scanAmounts ::
  "chain \<Rightarrow> string \<Rightarrow> string \<Rightarrow> int list \<Rightarrow> candidate option \<times> int
     \<Rightarrow> candidate option \<times> int" where
  "scanAmounts env t0 t1 [] acc = acc"
| "scanAmounts env t0 t1 (amt # rest) (bestOpportunity, maxProfit) =
     scanAmounts env t0 t1 rest
       (case calculateArbitrageProfit env t0 t1 amt of
          None \<Rightarrow> (bestOpportunity, maxProfit)
        | Some c \<Rightarrow>
            if profit c > maxProfit then (Some c, profit c)
            else (bestOpportunity, maxProfit))"

record pair =
  pair_token0 :: string
  pair_token1 :: string

text \<open>
  \<open>findArbitrageOpportunity\<close>: an unsupported token throws inside the \<open>try\<close> and the
  function answers \<open>null\<close>. The profit floor is the literal \<open>parseEther('0.001')\<close>.
\<close>

definition findArbitrageOpportunity :: "chain \<Rightarrow> pair \<Rightarrow> int \<Rightarrow> opportunity option" where
  "findArbitrageOpportunity env pr now =
     (case (tokens (pair_token0 pr), tokens (pair_token1 pr)) of
        (Some token0Address, Some token1Address) \<Rightarrow>
          (case scanAmounts env token0Address token1Address testAmounts (None, 0) of
             (Some best, maxProfit) \<Rightarrow>
               if maxProfit > 10 ^ 15
               then Some \<lparr> token0 = pair_token0 pr, token1 = pair_token1 pr,
                           asset = token0Address, amount = cand_amount best,
                           estimatedProfit = maxProfit,
                           profitability = etherFloat maxProfit,
                           path1 = cand_path1 best, path2 = cand_path2 best,
                           router1 = cand_router1 best, router2 = cand_router2 best,
                           minProfit = bn_div (maxProfit * 95) 100,
                           timestamp = now \<rparr>
               else None
           | (None, maxProfit) \<Rightarrow> None)
      | _ \<Rightarrow> None)"

text \<open>
  The amount a round trip returns: \<open>amt\<close> of \<open>t0\<close> sold for \<open>t1\<close> on \<open>buyDex\<close>, and
  the proceeds sold back on \<open>sellDex\<close>.
\<close>

definition roundTripVia ::
  "chain \<Rightarrow> string \<Rightarrow> string \<Rightarrow> int \<Rightarrow> dex \<Rightarrow> dex \<Rightarrow> int option" where
  "roundTripVia env t0 t1 amt buyDex sellDex =
     (case getAmountOut env t0 t1 amt buyDex of
        None \<Rightarrow> None
      | Some mid \<Rightarrow> getAmountOut env t1 t0 mid sellDex)"

text \<open>What the loop over the test amounts keeps true of \<open>(bestOpportunity, maxProfit)\<close>.\<close>

definition bestSoFar ::
  "chain \<Rightarrow> string \<Rightarrow> string \<Rightarrow> int set \<Rightarrow> candidate option \<times> int \<Rightarrow> bool" where
  "bestSoFar env t0 t1 A acc =
     (case acc of
        (None, maxProfit) \<Rightarrow> maxProfit = 0
      | (Some c, maxProfit) \<Rightarrow>
          maxProfit = profit c \<and> cand_amount c \<in> A
          \<and> calculateArbitrageProfit env t0 t1 (cand_amount c) = Some c)"

definition calculateGasCosts :: "chain \<Rightarrow> int" where
  "calculateGasCosts env =
     (case getGasPrice env of
        Inr gasPriceNow \<Rightarrow> gasPriceNow * 300000
      | Inl e \<Rightarrow> 10 ^ 16)"

text \<open>
  A sample chain: one ether buys 2000 DAI on Uniswap V2, which sell for 1.002 ether on
  Sushiswap; every other quote fails. The gas price is 100 gwei.
\<close>

definition sampleChain :: chain where
  "sampleChain =
     \<lparr> getAmountsOut = (\<lambda>d amtIn path.
          if d = UNISWAP_V2 \<and> path = [WETH, DAI] \<and> amtIn = parseEther 1
            then Inr [amtIn, parseEther 2000]
          else if d = SUSHISWAP \<and> path = [DAI, WETH] \<and> amtIn = parseEther 2000
            then Inr [amtIn, 1002 * 10 ^ 15]
          else if d = SUSHISWAP \<and> path = [DAI, WETH] \<and> amtIn = parseEther 1
            then Inr [amtIn, 5 * 10 ^ 14]
          else Inl ''execution reverted''),
       getGasPrice = Inr (parseGwei 100) \<rparr>"

definition samplePair :: pair where
  "samplePair = \<lparr> pair_token0 = ''WETH'', pair_token1 = ''DAI'' \<rparr>"

section \<open>FlashbotsExecutor\<close>

text \<open>
  A gas limit is a JavaScript number when the caller set it, and an \<open>ethers.BigNumber\<close>
  when \<open>estimateGas\<close> did. A \<open>BigNumber\<close> is an object and truthy even when it is zero.
\<close>

datatype gasValue = GasNumber int | GasBigNumber int

record transaction =
  tx_to :: string
  tx_data :: string
  tx_from :: "string option"
  gasLimit :: "gasValue option"
  nonce :: "nat option"
  gasPrice :: "int option"
  tx_type :: "nat option"
  maxFeePerGas :: "int option"
  maxPriorityFeePerGas :: "int option"

record bundleInfo =
  isSimulated :: bool
  isMined :: bool

text \<open>
  The Flashbots provider and the node behind it. Each field is the settled outcome of the
  call (\<open>Inl\<close>: the message of the error it throws). \<open>blockArrives\<close> is the outcome of the
  promise of \<open>waitForBlock\<close>, which polls the block number once a second and rejects after
  its timeout; the clock is outside the model. A block is the list of its transactions,
  each with its hash if it has one.
\<close>

record flashbotsProvider =
  provider_getBlockNumber :: "string + nat"
  provider_estimateGas :: "transaction \<Rightarrow> string + int"
  provider_getTransactionCount :: "string \<Rightarrow> string + nat"
  provider_getBlock :: "nat \<Rightarrow> string + string option list option"
  wallet_address :: string
  signBundle :: "transaction list \<Rightarrow> string + string"
  sendBundle :: "string \<Rightarrow> nat \<Rightarrow> string + string option"
  getBundleStats :: "string option \<Rightarrow> nat \<Rightarrow> string + bundleInfo"
  blockArrives :: "nat \<Rightarrow> string + nat"

text \<open>
  The executor's state: the counters of \<open>bundleStats\<close>, and a log of the calls made to the
  relay and of the blocks waited for, which the source does not keep and the model adds to
  state how often the relay is asked.
\<close>

datatype relayCall = SendBundle nat | WaitForBlock nat | GetBundleStats nat

record executor =
  submitted :: nat
  included :: nat
  failed :: nat
  totalGasUsed :: int
  relayLog :: "relayCall list"

definition logCall :: "relayCall \<Rightarrow> executor \<Rightarrow> executor" where
  "logCall c ex = ex\<lparr>relayLog := relayLog ex @ [c]\<rparr>"

definition polledBlocks :: "executor \<Rightarrow> nat list" where
  "polledBlocks ex =
     concat (map (\<lambda>c. case c of GetBundleStats b \<Rightarrow> [b] | _ \<Rightarrow> []) (relayLog ex))"

definition waitedBlocks :: "executor \<Rightarrow> nat list" where
  "waitedBlocks ex =
     concat (map (\<lambda>c. case c of WaitForBlock b \<Rightarrow> [b] | _ \<Rightarrow> []) (relayLog ex))"

definition estimateGas :: "flashbotsProvider \<Rightarrow> transaction \<Rightarrow> gasValue" where
  "estimateGas fb tx =
     (case provider_estimateGas fb tx of
        Inr gasEstimate \<Rightarrow> GasBigNumber (bn_div (gasEstimate * 120) 100)
      | Inl e \<Rightarrow> GasBigNumber 300000)"

text \<open>
  JavaScript truthiness of an optional gas limit and of an optional number: \<open>undefined\<close>
  and the number \<open>0\<close> are falsy.
\<close>

definition falsyGas :: "gasValue option \<Rightarrow> bool" where
  "falsyGas v = (v = None \<or> v = Some (GasNumber 0))"

definition falsyNat :: "nat option \<Rightarrow> bool" where
  "falsyNat v = (v = None \<or> v = Some 0)"

text \<open>
  \<open>prepareBundleTransactions\<close>: a transaction whose preparation throws (only the nonce
  lookup can) is logged and left out of the bundle.
\<close>

fun prepareBundleTransactions :: "flashbotsProvider \<Rightarrow> transaction list \<Rightarrow> transaction list" where
  "prepareBundleTransactions fb [] = []"
| "prepareBundleTransactions fb (tx # txs) =
     (let tx1 = (if falsyGas (gasLimit tx) then tx\<lparr>gasLimit := Some (estimateGas fb tx)\<rparr>
                 else tx);
          tx2 = tx1\<lparr>gasPrice := Some 0, tx_type := Some 2, maxFeePerGas := Some 0,
                     maxPriorityFeePerGas := Some 0\<rparr>
      in if falsyNat (nonce tx2)
         then (case provider_getTransactionCount fb
                      (if truthy (tx_from tx2) then the (tx_from tx2) else wallet_address fb) of
                 Inl e \<Rightarrow> prepareBundleTransactions fb txs
               | Inr n \<Rightarrow> tx2\<lparr>nonce := Some n\<rparr> # prepareBundleTransactions fb txs)
         else tx2 # prepareBundleTransactions fb txs)"

declare prepareBundleTransactions.simps [simp del]

record bundleResponse =
  response_bundleHash :: "string option"
  response_error :: "string option"

definition submitBundle ::
  "flashbotsProvider \<Rightarrow> transaction list \<Rightarrow> nat \<Rightarrow> executor \<Rightarrow> bundleResponse \<times> executor" where
  "submitBundle fb bundle targetBlockNumber ex =
     (case signBundle fb bundle of
        Inl e \<Rightarrow> (\<lparr> response_bundleHash = None, response_error = Some e \<rparr>, ex)
      | Inr signedBundle \<Rightarrow>
          (case sendBundle fb signedBundle targetBlockNumber of
             Inl e \<Rightarrow> (\<lparr> response_bundleHash = None, response_error = Some e \<rparr>,
                       logCall (SendBundle targetBlockNumber) ex)
           | Inr h \<Rightarrow> (\<lparr> response_bundleHash = h, response_error = None \<rparr>,
                       logCall (SendBundle targetBlockNumber) ex)))"

definition getTransactionHashFromBundle ::
  "flashbotsProvider \<Rightarrow> string option \<Rightarrow> nat \<Rightarrow> string option" where
  "getTransactionHashFromBundle fb h blockNo =
     (case provider_getBlock fb blockNo of
        Inl e \<Rightarrow> None
      | Inr None \<Rightarrow> None
      | Inr (Some txs) \<Rightarrow>
          (case filter (\<lambda>t. truthy t) txs of [] \<Rightarrow> None | t # ts \<Rightarrow> t))"

text \<open>
  The \<open>for\<close> loop of \<open>waitForBundleInclusion\<close>, entered at block \<open>currentBlock\<close> with
  \<open>k\<close> iterations left. \<open>Inl\<close>: an awaited call threw; \<open>Inr None\<close>: the loop ran out.
\<close>

fun inclusionLoop ::
  "flashbotsProvider \<Rightarrow> bundleResponse \<Rightarrow> nat \<Rightarrow> nat \<Rightarrow> executor
     \<Rightarrow> (string + executionResult option) \<times> executor" where
  "inclusionLoop fb r currentBlock 0 ex = (Inr None, ex)"
| "inclusionLoop fb r currentBlock (Suc k) ex =
     (let ex1 = logCall (WaitForBlock currentBlock) ex in
      case blockArrives fb currentBlock of
        Inl e \<Rightarrow> (Inl e, ex1)
      | Inr b \<Rightarrow>
          (let ex2 = logCall (GetBundleStats currentBlock) ex1 in
           case getBundleStats fb (response_bundleHash r) currentBlock of
             Inl e \<Rightarrow> (Inl e, ex2)
           | Inr stats \<Rightarrow>
               if isMined stats
               then (Inr (Some \<lparr> success = True, error = None,
                                  bundleHash = response_bundleHash r,
                                  txHash = getTransactionHashFromBundle fb
                                             (response_bundleHash r) currentBlock,
                                  blockNumber = Some currentBlock \<rparr>),
                     ex2\<lparr>included := included ex2 + 1\<rparr>)
               else inclusionLoop fb r (currentBlock + 1) k ex2))"

definition waitForBundleInclusion ::
  "flashbotsProvider \<Rightarrow> bundleResponse \<Rightarrow> nat \<Rightarrow> nat \<Rightarrow> executor
     \<Rightarrow> executionResult \<times> executor" where
  "waitForBundleInclusion fb r targetBlockNumber maxWaitBlocks ex =
     (case inclusionLoop fb r targetBlockNumber maxWaitBlocks ex of
        (Inr (Some res), ex') \<Rightarrow> (res, ex')
      | (Inr None, ex') \<Rightarrow>
          (\<lparr> success = False, error = Some ''Bundle not included within wait period'',
             bundleHash = response_bundleHash r, txHash = None, blockNumber = None \<rparr>, ex')
      | (Inl e, ex') \<Rightarrow>
          (\<lparr> success = False, error = Some e, bundleHash = response_bundleHash r,
             txHash = None, blockNumber = None \<rparr>, ex'))"

text \<open>
  The target block of \<open>executeBundle\<close>: the argument, or the block after the current one
  when the argument is \<open>null\<close> (or 0, which is falsy too).
\<close>

definition resolveTarget :: "flashbotsProvider \<Rightarrow> nat option \<Rightarrow> string + nat" where
  "resolveTarget fb targetBlockNumber =
     (if falsyNat targetBlockNumber
      then (case provider_getBlockNumber fb of
              Inl e \<Rightarrow> Inl e
            | Inr currentBlock \<Rightarrow> Inr (currentBlock + 1))
      else Inr (the targetBlockNumber))"

text \<open>
  The \<open>try\<close> body of \<open>executeBundle\<close> up to and including the test of the submission:
  \<open>Inl\<close> is the message of what it throws, \<open>Inr\<close> the accepted submission and its target
  block.
\<close>

definition submitPhase ::
  "flashbotsProvider \<Rightarrow> transaction list \<Rightarrow> nat option \<Rightarrow> executor
     \<Rightarrow> (string + bundleResponse \<times> nat) \<times> executor" where
  "submitPhase fb transactions targetBlockNumber ex =
     (case resolveTarget fb targetBlockNumber of
        Inl e \<Rightarrow> (Inl e, ex)
      | Inr target \<Rightarrow>
          (let bundle = prepareBundleTransactions fb transactions in
           if bundle = [] then (Inl ''No valid transactions in bundle'', ex)
           else
             (case submitBundle fb bundle target ex of
                (bundleResponse, ex1) \<Rightarrow>
                  if truthy (response_error bundleResponse)
                  then (Inl (''Bundle submission failed: ''
                              @ the (response_error bundleResponse)), ex1)
                  else (Inr (bundleResponse, target), ex1\<lparr>submitted := submitted ex1 + 1\<rparr>))))"

text \<open>
  \<open>executeBundle\<close>: the result is \<open>Inr\<close> of the object the promise resolves to; \<open>Inl\<close>
  would be a rejection reaching the caller.
\<close>

definition executeBundle ::
  "flashbotsProvider \<Rightarrow> transaction list \<Rightarrow> nat option \<Rightarrow> executor
     \<Rightarrow> (string + executionResult) \<times> executor" where
  "executeBundle fb transactions targetBlockNumber ex =
     (case submitPhase fb transactions targetBlockNumber ex of
        (Inl e, ex') \<Rightarrow>
          (Inr \<lparr> success = False, error = Some e, bundleHash = None, txHash = None,
                 blockNumber = None \<rparr>,
           ex'\<lparr>failed := failed ex' + 1\<rparr>)
      | (Inr (bundleResponse, target), ex') \<Rightarrow>
          (case waitForBundleInclusion fb bundleResponse target 3 ex' of
             (res, ex'') \<Rightarrow> (Inr res, ex'')))"

text \<open>
  Every block of the window of \<open>k\<close> blocks from \<open>b\<close> arrives, and the relay reports the
  bundle as not mined in it.
\<close>

definition pendingDuring :: "flashbotsProvider \<Rightarrow> bundleResponse \<Rightarrow> nat \<Rightarrow> nat \<Rightarrow> bool" where
  "pendingDuring fb r b k =
     list_all (\<lambda>blockNo.
        (case blockArrives fb blockNo of Inl e \<Rightarrow> False | Inr x \<Rightarrow> True)
        \<and> (case getBundleStats fb (response_bundleHash r) blockNo of
             Inl e \<Rightarrow> False | Inr stats \<Rightarrow> \<not> isMined stats)) [b ..< b + k]"

definition newExecutor :: executor where
  "newExecutor = \<lparr> submitted = 0, included = 0, failed = 0, totalGasUsed = 0, relayLog = [] \<rparr>"

definition sampleTransaction :: transaction where
  "sampleTransaction =
     \<lparr> tx_to = ''0x1111'', tx_data = ''0xabcd'', tx_from = None, gasLimit = Some (GasNumber 500000),
       nonce = Some 7, gasPrice = None, tx_type = None, maxFeePerGas = None,
       maxPriorityFeePerGas = None \<rparr>"

text \<open>A relay that accepts the bundle and reports it pending at every block.\<close>

definition pendingRelay :: flashbotsProvider where
  "pendingRelay =
     \<lparr> provider_getBlockNumber = Inr 99,
       provider_estimateGas = (\<lambda>tx. Inr 250000),
       provider_getTransactionCount = (\<lambda>a. Inr 7),
       provider_getBlock = (\<lambda>b. Inr None),
       wallet_address = ''0x2222'',
       signBundle = (\<lambda>b. Inr ''signed''),
       sendBundle = (\<lambda>sb t. Inr (Some ''0xb1'')),
       getBundleStats = (\<lambda>h b. Inr \<lparr> isSimulated = True, isMined = False \<rparr>),
       blockArrives = (\<lambda>b. Inr b) \<rparr>"

text \<open>Relays that reject the bundle, with a message and with an empty one.\<close>

definition rejectingRelay :: flashbotsProvider where
  "rejectingRelay = pendingRelay\<lparr>sendBundle := (\<lambda>sb t. Inl ''relay rejected'')\<rparr>"

definition silentRejectingRelay :: flashbotsProvider where
  "silentRejectingRelay = pendingRelay\<lparr>sendBundle := (\<lambda>sb t. Inl [])\<rparr>"

section \<open>PriceMonitor\<close>

text \<open>
  The prices of a history are JavaScript numbers. \<open>Num r\<close> is the finite double of value
  \<open>r\<close>; a zero is the positive zero.
\<close>

record pricePoint =
  pp_price :: jsvalue
  pp_timestamp :: int

type_synonym priceHistory = "string \<Rightarrow> pricePoint list option"



definition addToHistory :: "string \<Rightarrow> jsvalue \<Rightarrow> int \<Rightarrow> priceHistory \<Rightarrow> priceHistory" where
  "addToHistory tokenSymbol p now ph =
     (let history = (case ph tokenSymbol of None \<Rightarrow> [] | Some h \<Rightarrow> h)
                    @ [\<lparr> pp_price = p, pp_timestamp = now \<rparr>];
          kept = (if length history > 1000 then drop (length history - 1000) history
                  else history)
      in ph(tokenSymbol \<mapsto> kept))"

text \<open>
  The arithmetic of JavaScript numbers is that of IEEE doubles, with rounding, overflow to
  the infinities and \<open>NaN\<close>. It is a parameter of the model: the operations \<open>+\<close>, \<open>-\<close>,
  \<open>/\<close>, \<open>Math.pow(x, 2)\<close> and \<open>Math.sqrt\<close> of the code are the fields of the record,
  and what is proved of \<open>calculateVolatility\<close> for every such record holds of the doubles.
\<close>

record doubleArith =
  dadd :: "jsvalue \<Rightarrow> jsvalue \<Rightarrow> jsvalue"
  dsub :: "jsvalue \<Rightarrow> jsvalue \<Rightarrow> jsvalue"
  ddiv :: "jsvalue \<Rightarrow> jsvalue \<Rightarrow> jsvalue"
  dpow2 :: "jsvalue \<Rightarrow> jsvalue"
  dsqrt :: "jsvalue \<Rightarrow> jsvalue"





text \<open>
  The arithmetic in which every operation on finite numbers is exact, with the rules of
  IEEE 754 for division by zero, the infinities and \<open>NaN\<close>. The doubles agree with it
  wherever the exact result of an operation is a double.
\<close>

fun exactAdd :: "jsvalue \<Rightarrow> jsvalue \<Rightarrow> jsvalue" where
  "exactAdd (Num x) (Num y) = Num (x + y)"
| "exactAdd (Num x) PosInfinity = PosInfinity"
| "exactAdd (Num x) NegInfinity = NegInfinity"
| "exactAdd PosInfinity (Num y) = PosInfinity"
| "exactAdd PosInfinity PosInfinity = PosInfinity"
| "exactAdd NegInfinity (Num y) = NegInfinity"
| "exactAdd NegInfinity NegInfinity = NegInfinity"
| "exactAdd x y = NaN"

fun exactNeg :: "jsvalue \<Rightarrow> jsvalue" where
  "exactNeg (Num x) = Num (- x)"
| "exactNeg PosInfinity = NegInfinity"
| "exactNeg NegInfinity = PosInfinity"
| "exactNeg x = NaN"

definition exactSub :: "jsvalue \<Rightarrow> jsvalue \<Rightarrow> jsvalue" where
  "exactSub x y = exactAdd x (exactNeg y)"

fun exactDiv :: "jsvalue \<Rightarrow> jsvalue \<Rightarrow> jsvalue" where
  "exactDiv (Num x) (Num y) =
     (if y \<noteq> 0 then Num (x / y)
      else if x > 0 then PosInfinity else if x < 0 then NegInfinity else NaN)"
| "exactDiv (Num x) PosInfinity = Num 0"
| "exactDiv (Num x) NegInfinity = Num 0"
| "exactDiv PosInfinity (Num y) = (if y < 0 then NegInfinity else PosInfinity)"
| "exactDiv NegInfinity (Num y) = (if y < 0 then PosInfinity else NegInfinity)"
| "exactDiv x y = NaN"

fun exactPow2 :: "jsvalue \<Rightarrow> jsvalue" where
  "exactPow2 (Num x) = Num (x ^ 2)"
| "exactPow2 PosInfinity = PosInfinity"
| "exactPow2 NegInfinity = PosInfinity"
| "exactPow2 x = NaN"

fun exactSqrt :: "jsvalue \<Rightarrow> jsvalue" where
  "exactSqrt (Num x) = (if 0 \<le> x then Num (sqrt x) else NaN)"
| "exactSqrt PosInfinity = PosInfinity"
| "exactSqrt x = NaN"

definition exactArith :: doubleArith where
  "exactArith =
     \<lparr> dadd = exactAdd, dsub = exactSub, ddiv = exactDiv, dpow2 = exactPow2,
       dsqrt = exactSqrt \<rparr>"




text \<open>
  The successive fractional returns as the specification words them:
  \<open>(p[i] - p[i-1]) / p[i-1]\<close> for \<open>i\<close> from 1; and the last \<open>w\<close> samples of a history.
\<close>

definition successiveReturns :: "real list \<Rightarrow> real list" where
  "successiveReturns ps = map (\<lambda>i. (ps ! i - ps ! (i - 1)) / ps ! (i - 1)) [1 ..< length ps]"


definition samplePrices :: "real list \<Rightarrow> priceHistory" where
  "samplePrices ps =
     (\<lambda>t. None)(''WETH'' \<mapsto> map (\<lambda>p. \<lparr> pp_price = Num p, pp_timestamp = 0 \<rparr>) ps)"

section \<open>The orchestrator's scan cycle\<close>

definition supportedPairs :: "pair list" where
  "supportedPairs =
     [ \<lparr> pair_token0 = ''WETH'', pair_token1 = ''DAI'' \<rparr>,
       \<lparr> pair_token0 = ''WETH'', pair_token1 = ''USDC'' \<rparr>,
       \<lparr> pair_token0 = ''WETH'', pair_token1 = ''USDT'' \<rparr>,
       \<lparr> pair_token0 = ''DAI'', pair_token1 = ''USDC'' \<rparr>,
       \<lparr> pair_token0 = ''DAI'', pair_token1 = ''USDT'' \<rparr>,
       \<lparr> pair_token0 = ''USDC'', pair_token1 = ''USDT'' \<rparr> ]"

text \<open>
  The test in \<open>scanForArbitrageOpportunities\<close> that leads to \<open>executeArbitrage\<close>: an
  opportunity was found, its profitability is positive, the risk assessment approved it
  and the confidence of the signal exceeds 0.7. Every comparison with a value that is not
  a finite number above 0.7 is false, but for \<open>Infinity\<close>.
\<close>

definition confidenceAbove :: "jsvalue \<Rightarrow> real \<Rightarrow> bool" where
  "confidenceAbove v t = (case v of Num r \<Rightarrow> r > t | PosInfinity \<Rightarrow> True | _ \<Rightarrow> False)"

definition shouldExecute :: "opportunity option \<Rightarrow> signal \<Rightarrow> assessment \<Rightarrow> bool" where
  "shouldExecute found sig riskAssessment =
     (case found of
        None \<Rightarrow> False
      | Some opp \<Rightarrow>
          profitability opp > 0 \<and> approved riskAssessment
          \<and> confidenceAbove (confidence sig) (7 / 10))"

text \<open>
  JavaScript runs one callback at a time and switches only at an \<open>await\<close>. A call of
  \<open>scanForArbitrageOpportunities\<close> that has not returned is therefore at one of two
  places: awaiting the scan, the signal and the assessment of the pair at the head of its
  remaining pairs, or awaiting \<open>executeArbitrage\<close> for the asset of that pair. The timer
  set by \<open>startArbitrageScanning\<close> starts a new call every two seconds whether or not an
  earlier one has returned.
\<close>

datatype scanPhase = AwaitingScan | AwaitingExecution string

record scanCycle =
  remaining :: "pair list"
  phase :: scanPhase

record orchestrator =
  isRunning :: bool
  cycles :: "scanCycle list"

datatype event =
  TimerFires
  | ScanSettles nat chain int signal assessment
  | ScanThrows nat
  | ExecutionSettles nat

text \<open>The cycle moves on to its next pair, and is over after the last one.\<close>

definition advance :: "nat \<Rightarrow> scanCycle list \<Rightarrow> scanCycle list" where
  "advance i cs =
     (case tl (remaining (cs ! i)) of
        [] \<Rightarrow> take i cs @ drop (Suc i) cs
      | p # ps \<Rightarrow> cs[i := \<lparr> remaining = p # ps, phase = AwaitingScan \<rparr>])"

text \<open>
  One event of the event loop; \<open>None\<close> when the event cannot happen in the state.
  \<^item> \<open>TimerFires\<close>: the callback of \<open>setInterval\<close> starts a scan, if the bot is running.
  \<^item> \<open>ScanSettles i env now sig a\<close>: in cycle \<open>i\<close> the awaited scan of the current pair
    (made on the chain \<open>env\<close> at time \<open>now\<close>), the signal and the risk assessment have
    arrived; the cycle calls \<open>executeArbitrage\<close> or moves on.
  \<^item> \<open>ScanThrows i\<close>: something in the \<open>try\<close> block of cycle \<open>i\<close> threw; the error is
    logged and the cycle moves on.
  \<^item> \<open>ExecutionSettles i\<close>: the awaited \<open>executeArbitrage\<close> of cycle \<open>i\<close> has returned.
\<close>

fun step :: "event \<Rightarrow> orchestrator \<Rightarrow> orchestrator option" where
  "step TimerFires s =
     (if isRunning s
      then Some (s\<lparr>cycles := cycles s @ [\<lparr> remaining = supportedPairs, phase = AwaitingScan \<rparr>]\<rparr>)
      else Some s)"
| "step (ScanSettles i env now sig riskAssessment) s =
     (if i < length (cycles s) \<and> phase (cycles s ! i) = AwaitingScan
         \<and> remaining (cycles s ! i) \<noteq> []
      then (let found = findArbitrageOpportunity env (hd (remaining (cycles s ! i))) now in
            case found of
              Some opp \<Rightarrow>
                if shouldExecute found sig riskAssessment
                then Some (s\<lparr>cycles := (cycles s)[i := (cycles s ! i)
                                 \<lparr>phase := AwaitingExecution (asset opp)\<rparr>]\<rparr>)
                else Some (s\<lparr>cycles := advance i (cycles s)\<rparr>)
            | None \<Rightarrow> Some (s\<lparr>cycles := advance i (cycles s)\<rparr>))
      else None)"
| "step (ScanThrows i) s =
     (if i < length (cycles s) \<and> phase (cycles s ! i) = AwaitingScan
      then Some (s\<lparr>cycles := advance i (cycles s)\<rparr>)
      else None)"
| "step (ExecutionSettles i) s =
     (if i < length (cycles s) \<and> phase (cycles s ! i) \<noteq> AwaitingScan
      then Some (s\<lparr>cycles := advance i (cycles s)\<rparr>)
      else None)"

declare step.simps [simp del]

fun run :: "event list \<Rightarrow> orchestrator \<Rightarrow> orchestrator option" where
  "run [] s = Some s"
| "run (e # es) s = (case step e s of None \<Rightarrow> None | Some s' \<Rightarrow> run es s')"

text \<open>The executions of an asset that have been started and have not yet settled.\<close>

definition inFlight :: "orchestrator \<Rightarrow> string \<Rightarrow> nat" where
  "inFlight s a = length (filter (\<lambda>c. phase c = AwaitingExecution a) (cycles s))"

fun isTimerFires :: "event \<Rightarrow> bool" where
  "isTimerFires TimerFires = True"
| "isTimerFires _ = False"

definition started :: orchestrator where
  "started = \<lparr> isRunning = True, cycles = [] \<rparr>"

text \<open>A signal and an assessment under which the sample opportunity is executed.\<close>

definition strongSignal :: signal where
  "strongSignal =
     \<lparr> signal_strength = Num (9 / 10), confidence = Num (9 / 10),
       quantum_features = [0, 1, 0, 1], signal_timestamp = ''2024-01-01T00:00:00'',
       source = ''quantum'' \<rparr>"

definition approval :: assessment where
  "approval = fst (assessRisk sampleOpportunity 100000 (newRiskManager 0))"

text \<open>A manager with a failed and a successful trade on record, created at time 0.\<close>

definition dayOld :: riskManager where
  "dayOld = recordTradeResult sampleOpportunity failedResult 1000
              (recordTradeResult sampleOpportunity okResult 500 (newRiskManager 0))"

text \<open>
  Two timer ticks, then the scan of the first pair settles in both cycles with the sample
  opportunity approved.
\<close>

definition overlappingScans :: "event list" where
  "overlappingScans =
     [ TimerFires, TimerFires,
       ScanSettles 0 sampleChain 0 strongSignal approval,
       ScanSettles 1 sampleChain 0 strongSignal approval ]"

text \<open>One timer tick, and the scan of the first pair settles with the sample opportunity.\<close>

definition singleScan :: "event list" where
  "singleScan = [ TimerFires, ScanSettles 0 sampleChain 0 strongSignal approval ]"

definition executingWETH :: scanCycle where
  "executingWETH = \<lparr> remaining = supportedPairs, phase = AwaitingExecution WETH \<rparr>"


section \<open>Properties of the RiskManager\<close>

subsection \<open>Sequences of calls\<close>


lemma riskParams_recordTradeResult [simp]:
  "riskParams (recordTradeResult opp result now m) = riskParams m"
  by (simp add: recordTradeResult_def pauseSystem_def Let_def)

lemma riskParams_assessRisk [simp]:
  "riskParams (snd (assessRisk opp now m)) = riskParams m"
  by (simp add: assessRisk_def resetDailyCountersIfNeeded_def Let_def)

lemma riskParams_call [simp]: "riskParams (call c m) = riskParams m"
  by (cases c) (simp_all add: pauseSystem_def resumeSystem_def)

lemma riskParams_calls [simp]: "riskParams (calls cs m) = riskParams m"
  by (induction cs arbitrary: m) auto








lemma three_failures_reason:
  "pauseReason (riskState (calls threeFailures (newRiskManager 0)))
     = Some ''Too many consecutive failures: 3''"
  by (simp add: threeFailures_def failedResult_def newRiskManager_def defaultRiskParams_def
        initialRiskState_def recordTradeResult_def pauseSystem_def Let_def
        string_of_nat.simps)

subsection \<open>The circuit breaker\<close>



subsection \<open>Resuming\<close>

text \<open>
  Claim C10. \<open>resumeSystem\<close> sets \<open>isPaused\<close> to false, \<open>pauseReason\<close> to \<open>null\<close> and
  \<open>consecutiveFailures\<close> to 0, and leaves \<open>dailyLoss\<close>, \<open>dailyProfit\<close>,
  \<open>lastTradeTime\<close>, \<open>totalTrades\<close>, \<open>successfulTrades\<close> and \<open>lastResetTime\<close> (and the
  parameters and the trade history) as they were: the failure count accumulated before
  the pause is forgotten.
\<close>

theorem resumeSystem_frame:
  "\<not> isPaused (riskState (resumeSystem m))
   \<and> pauseReason (riskState (resumeSystem m)) = None
   \<and> consecutiveFailures (riskState (resumeSystem m)) = 0
   \<and> dailyLoss (riskState (resumeSystem m)) = dailyLoss (riskState m)
   \<and> dailyProfit (riskState (resumeSystem m)) = dailyProfit (riskState m)
   \<and> lastTradeTime (riskState (resumeSystem m)) = lastTradeTime (riskState m)
   \<and> totalTrades (riskState (resumeSystem m)) = totalTrades (riskState m)
   \<and> successfulTrades (riskState (resumeSystem m)) = successfulTrades (riskState m)
   \<and> lastResetTime (riskState (resumeSystem m)) = lastResetTime (riskState m)
   \<and> riskParams (resumeSystem m) = riskParams m
   \<and> tradeHistory (resumeSystem m) = tradeHistory m"
  by (simp add: resumeSystem_def)

subsection \<open>The daily counters\<close>

text \<open>
  Claim C5, as the code has it. \<open>assessRisk\<close> sets \<open>dailyLoss\<close> and \<open>dailyProfit\<close> to
  zero, and \<open>lastResetTime\<close> to \<open>now\<close>, when \<open>now - lastResetTime\<close> is at least 24 hours,
  and leaves all three unchanged before that. \<open>recordTradeResult\<close> never resets them,
  however long ago the last reset was: it adds the estimated profit to \<open>dailyProfit\<close> on
  success and to \<open>dailyLoss\<close> on failure, and leaves \<open>lastResetTime\<close> unchanged.
\<close>

theorem daily_reset_only_on_assessRisk:
  "(now - lastResetTime (riskState m) \<ge> oneDayMs \<longrightarrow>
      dailyLoss (riskState (snd (assessRisk opp now m))) = 0
      \<and> dailyProfit (riskState (snd (assessRisk opp now m))) = 0
      \<and> lastResetTime (riskState (snd (assessRisk opp now m))) = now)
   \<and> (now - lastResetTime (riskState m) < oneDayMs \<longrightarrow>
      dailyLoss (riskState (snd (assessRisk opp now m))) = dailyLoss (riskState m)
      \<and> dailyProfit (riskState (snd (assessRisk opp now m))) = dailyProfit (riskState m)
      \<and> lastResetTime (riskState (snd (assessRisk opp now m))) = lastResetTime (riskState m))
   \<and> dailyLoss (riskState (recordTradeResult opp result now m))
       = dailyLoss (riskState m) + (if success result then 0 else estimatedProfit opp)
   \<and> dailyProfit (riskState (recordTradeResult opp result now m))
       = dailyProfit (riskState m) + (if success result then estimatedProfit opp else 0)
   \<and> lastResetTime (riskState (recordTradeResult opp result now m))
       = lastResetTime (riskState m)"
  by (simp add: assessRisk_def resetDailyCountersIfNeeded_def recordTradeResult_def
        pauseSystem_def Let_def)

lemma dayOld_counters:
  "dailyLoss (riskState dayOld) = 2 * 10 ^ 15"
  "dailyProfit (riskState dayOld) = 2 * 10 ^ 15"
  "lastResetTime (riskState dayOld) = 0"
  by (simp_all add: dayOld_def recordTradeResult_def pauseSystem_def Let_def
        newRiskManager_def initialRiskState_def defaultRiskParams_def
        sampleOpportunity_def failedResult_def okResult_def)

theorem daily_reset_only_on_assessRisk_witness:
  "dailyLoss (riskState (snd (assessRisk sampleOpportunity 86400000 dayOld))) = 0
   \<and> dailyProfit (riskState (snd (assessRisk sampleOpportunity 86400000 dayOld))) = 0
   \<and> lastResetTime (riskState (snd (assessRisk sampleOpportunity 86400000 dayOld))) = 86400000
   \<and> dailyLoss (riskState (snd (assessRisk sampleOpportunity 86399999 dayOld))) = 2 * 10 ^ 15
   \<and> dailyProfit (riskState (snd (assessRisk sampleOpportunity 86399999 dayOld))) = 2 * 10 ^ 15
   \<and> lastResetTime (riskState (snd (assessRisk sampleOpportunity 86399999 dayOld))) = 0"
  using daily_reset_only_on_assessRisk [of 86400000 dayOld sampleOpportunity failedResult]
        daily_reset_only_on_assessRisk [of 86399999 dayOld sampleOpportunity failedResult]
  by (simp add: dayOld_counters oneDayMs_def)

text \<open>
  More than 24 hours after the last reset, a \<open>recordTradeResult\<close> call leaves the
  counters of the old day in place and adds to them.
\<close>

theorem recordTradeResult_no_daily_reset:
  "90000000 - lastResetTime (riskState dayOld) \<ge> oneDayMs
   \<and> dailyLoss (riskState (recordTradeResult sampleOpportunity failedResult 90000000 dayOld))
       = 4 * 10 ^ 15
   \<and> dailyProfit (riskState (recordTradeResult sampleOpportunity failedResult 90000000 dayOld))
       = 2 * 10 ^ 15
   \<and> lastResetTime (riskState (recordTradeResult sampleOpportunity failedResult 90000000 dayOld))
       = 0"
  by (simp add: dayOld_def recordTradeResult_def pauseSystem_def Let_def newRiskManager_def
        initialRiskState_def defaultRiskParams_def sampleOpportunity_def failedResult_def
        okResult_def oneDayMs_def)

subsection \<open>The risk score and the approval\<close>


lemma scoreLoop_sums:
  "scoreLoop cs (t, w) =
     (t + sum_list (map weight cs), w + sum_list (map weight (filter (\<lambda>c. \<not> passed c) cs)))"
  by (induction cs arbitrary: t w) auto

lemma calculateRiskScore_formula:
  "calculateRiskScore cs =
     (if sum_list (map weight cs) > 0
      then sum_list (map weight (filter (\<lambda>c. \<not> passed c) cs)) / sum_list (map weight cs)
      else 1)"
  by (simp add: calculateRiskScore_def scoreLoop_sums)

lemma failed_weight_le:
  "\<forall>c\<in>set cs. 0 \<le> weight c \<Longrightarrow>
   0 \<le> sum_list (map weight (filter (\<lambda>c. \<not> passed c) cs))
   \<and> sum_list (map weight (filter (\<lambda>c. \<not> passed c) cs)) \<le> sum_list (map weight cs)"
  by (induction cs) auto

lemma calculateRiskScore_bounds:
  assumes "\<forall>c\<in>set cs. 0 \<le> weight c"
  shows "0 \<le> calculateRiskScore cs \<and> calculateRiskScore cs \<le> 1"
proof (cases "sum_list (map weight cs) > 0")
  case True
  with failed_weight_le[OF assms] show ?thesis
    by (simp add: calculateRiskScore_formula)
next
  case False
  then show ?thesis by (simp add: calculateRiskScore_formula)
qed

lemma all_passed_score:
  "list_all passed cs \<Longrightarrow> sum_list (map weight (filter (\<lambda>c. \<not> passed c) cs)) = 0"
  by (induction cs) auto

lemma riskChecks_weights:
  "map weight (riskChecks now m opp)
     = [2 / 10, 3 / 10, 2 / 10, 15 / 100, 1 / 10, 1 / 10, 5 / 100, 2 / 10, 15 / 100, 1 / 10]"
  by (simp add: riskChecks_def checkProfitThreshold_def checkDailyLossLimit_def
        checkSingleTradeLossLimit_def checkSlippage_def checkGasPrice_def
        checkLiquidityUtilization_def checkCooldownPeriod_def checkConsecutiveFailures_def
        checkVolatility_def checkLiquidityThreshold_def Let_def)

lemma riskChecks_total_weight: "sum_list (map weight (riskChecks now m opp)) = 155 / 100"
  by (simp add: riskChecks_weights)

lemma riskChecks_weights_nonneg: "\<forall>c\<in>set (riskChecks now m opp). 0 \<le> weight c"
proof -
  have "\<forall>w\<in>set (map weight (riskChecks now m opp)). 0 \<le> w"
    unfolding riskChecks_weights by simp
  then show ?thesis by simp
qed

lemma isPaused_reset [simp]:
  "isPaused (riskState (resetDailyCountersIfNeeded now m)) = isPaused (riskState m)"
  by (simp add: resetDailyCountersIfNeeded_def Let_def)

text \<open>
  Claim C4, as the code has it. For the ten checks of an assessment, the risk score is the
  sum of the weights of the failed checks divided by the sum of all weights, and lies in
  \<open>[0, 1]\<close>; the ten weights sum to 1.55, not 1. \<open>approved\<close> holds exactly when the
  manager is not paused, all checks pass and the risk score is below 0.7. For any list
  of checks \<open>calculateRiskScore\<close> is that quotient, and 1 when the weights do not sum to
  more than 0. The confidence of the signal is no part of the assessment: \<open>assessRisk\<close>
  takes no signal, and the scan cycle tests the confidence afterwards, on its own.
\<close>

theorem assessRisk_score_and_approval:
  "sum_list (map weight (riskChecks now (snd (assessRisk opp now m)) opp)) = 155 / 100
   \<and> calculateRiskScore (riskChecks now (snd (assessRisk opp now m)) opp)
       = sum_list (map weight (filter (\<lambda>c. \<not> passed c)
                                 (riskChecks now (snd (assessRisk opp now m)) opp)))
         / sum_list (map weight (riskChecks now (snd (assessRisk opp now m)) opp))
   \<and> 0 \<le> calculateRiskScore (riskChecks now (snd (assessRisk opp now m)) opp)
   \<and> calculateRiskScore (riskChecks now (snd (assessRisk opp now m)) opp) \<le> 1
   \<and> (\<not> isPaused (riskState m) \<longrightarrow>
        checks (fst (assessRisk opp now m)) = riskChecks now (snd (assessRisk opp now m)) opp
        \<and> riskScore (fst (assessRisk opp now m))
            = calculateRiskScore (riskChecks now (snd (assessRisk opp now m)) opp))
   \<and> (approved (fst (assessRisk opp now m))
        \<longleftrightarrow> \<not> isPaused (riskState m)
            \<and> list_all passed (riskChecks now (snd (assessRisk opp now m)) opp)
            \<and> calculateRiskScore (riskChecks now (snd (assessRisk opp now m)) opp) < 7 / 10)
   \<and> calculateRiskScore cs
       = (if sum_list (map weight cs) > 0
          then sum_list (map weight (filter (\<lambda>c. \<not> passed c) cs)) / sum_list (map weight cs)
          else 1)"
proof -
  let ?m' = "snd (assessRisk opp now m)"
  let ?cs = "riskChecks now ?m' opp"
  have m': "?m' = resetDailyCountersIfNeeded now m"
    by (simp add: assessRisk_def Let_def)
  have 1: "sum_list (map weight ?cs) = 155 / 100"
    by (rule riskChecks_total_weight)
  have 2: "calculateRiskScore ?cs
       = sum_list (map weight (filter (\<lambda>c. \<not> passed c) ?cs)) / sum_list (map weight ?cs)"
    by (simp add: calculateRiskScore_formula[of ?cs] 1)
  have 3: "0 \<le> calculateRiskScore ?cs \<and> calculateRiskScore ?cs \<le> 1"
    by (rule calculateRiskScore_bounds) (rule riskChecks_weights_nonneg)
  have 4: "\<not> isPaused (riskState m) \<longrightarrow>
        checks (fst (assessRisk opp now m)) = ?cs
        \<and> riskScore (fst (assessRisk opp now m)) = calculateRiskScore ?cs"
    unfolding m' by (simp add: assessRisk_def Let_def)
  have 5: "approved (fst (assessRisk opp now m))
        \<longleftrightarrow> \<not> isPaused (riskState m) \<and> list_all passed ?cs
            \<and> calculateRiskScore ?cs < 7 / 10"
    unfolding m' by (simp add: assessRisk_def Let_def)
  have 6: "calculateRiskScore cs
       = (if sum_list (map weight cs) > 0
          then sum_list (map weight (filter (\<lambda>c. \<not> passed c) cs)) / sum_list (map weight cs)
          else 1)"
    by (rule calculateRiskScore_formula)
  from 1 2 3 4 5 6 show ?thesis by blast
qed

lemma sample_checks_pass:
  "list_all passed (riskChecks 100000 (newRiskManager 0) sampleOpportunity)"
  by (simp add: riskChecks_def checkProfitThreshold_def checkDailyLossLimit_def
        checkSingleTradeLossLimit_def checkSlippage_def checkGasPrice_def
        checkLiquidityUtilization_def checkCooldownPeriod_def checkConsecutiveFailures_def
        checkVolatility_def checkLiquidityThreshold_def Let_def estimatedLoss_def
        estimateSlippage_def etherFloat_def bn_div_def parseEther_def parseGwei_def
        newRiskManager_def defaultRiskParams_def initialRiskState_def sampleOpportunity_def)

lemma sample_reset:
  "snd (assessRisk sampleOpportunity 100000 (newRiskManager 0)) = newRiskManager 0"
  by (simp add: assessRisk_def resetDailyCountersIfNeeded_def Let_def newRiskManager_def
        initialRiskState_def oneDayMs_def)

theorem assessRisk_score_and_approval_witness:
  "checks approval = riskChecks 100000 (newRiskManager 0) sampleOpportunity
   \<and> riskScore approval = 0
   \<and> approved approval"
  using assessRisk_score_and_approval [of 100000 sampleOpportunity "newRiskManager 0" "[]"]
        all_passed_score [OF sample_checks_pass] sample_checks_pass
  by (simp add: approval_def sample_reset) (simp add: newRiskManager_def initialRiskState_def)

lemma approval_value:
  "approved approval" "riskScore approval = 0"
  "checks approval = riskChecks 100000 (newRiskManager 0) sampleOpportunity"
proof -
  have r: "resetDailyCountersIfNeeded 100000 (newRiskManager 0) = newRiskManager 0"
    by (simp add: resetDailyCountersIfNeeded_def Let_def newRiskManager_def
          initialRiskState_def oneDayMs_def)
  have p: "\<not> isPaused (riskState (newRiskManager 0))"
    by (simp add: newRiskManager_def initialRiskState_def)
  have z: "calculateRiskScore (riskChecks 100000 (newRiskManager 0) sampleOpportunity) = 0"
    by (simp add: calculateRiskScore_formula all_passed_score[OF sample_checks_pass]
          riskChecks_total_weight)
  show "approved approval" "riskScore approval = 0"
    "checks approval = riskChecks 100000 (newRiskManager 0) sampleOpportunity"
    using p z sample_checks_pass by (simp_all add: approval_def assessRisk_def Let_def r)
qed

text \<open>
  The weights of the checks of an approved assessment sum to 1.55, and the assessment is
  approved although the signal of the opportunity has confidence 0.3, with which the scan
  cycle does not execute it.
\<close>

theorem weights_and_confidence_counterexample:
  "sum_list (map weight (checks approval)) = 155 / 100
   \<and> sum_list (map weight (checks approval)) \<noteq> 1
   \<and> approved approval
   \<and> confidence (getFallbackSignal sampleOpportunity []) = Num (3 / 10)
   \<and> \<not> shouldExecute (Some sampleOpportunity) (getFallbackSignal sampleOpportunity []) approval"
proof -
  have c: "confidence (getFallbackSignal sampleOpportunity []) = Num (3 / 10)"
    by (simp add: getFallbackSignal_def Let_def profitScore_def amountScore_def
          sampleOpportunity_def parseEther_def)
  then have "\<not> shouldExecute (Some sampleOpportunity) (getFallbackSignal sampleOpportunity [])
                approval"
    by (simp add: shouldExecute_def confidenceAbove_def)
  with c show ?thesis
    by (simp add: approval_value riskChecks_total_weight)
qed

section \<open>Properties of the ArbitrageCalculator\<close>


lemma getPrice_Some:
  "getPrice env tin tout a d = Some q \<Longrightarrow> getAmountOut env tin tout a d = Some (amountOut q)"
  by (auto simp: getPrice_def split: option.splits if_splits)

lemma roundTrip_member:
  assumes "c \<in> set (roundTrip env t0 t1 amt buy sell buyDex sellDex label)"
  shows "\<exists>b fin. buy = Some b \<and> getAmountOut env t1 t0 (amountOut b) sellDex = Some fin
           \<and> amt < fin \<and> profit c = fin - amt \<and> cand_amount c = amt"
  using assms
  by (auto simp: roundTrip_def Let_def split: option.splits if_splits)

lemma foldl_best_member:
  "foldl (\<lambda>best current. if profit current > profit best then current else best) c cs
     \<in> set (c # cs)"
  by (induction cs arbitrary: c) auto

lemma calculateArbitrageProfit_Some:
  assumes "calculateArbitrageProfit env t0 t1 amt = Some c"
  shows "cand_amount c = amt \<and> 0 < profit c
         \<and> (\<exists>fin. (roundTripVia env t0 t1 amt UNISWAP_V2 SUSHISWAP = Some fin
                    \<or> roundTripVia env t0 t1 amt SUSHISWAP UNISWAP_V2 = Some fin)
                \<and> profit c = fin - amt)"
proof -
  let ?r1 = "roundTrip env t0 t1 amt (getPrice env t0 t1 amt UNISWAP_V2)
               (getPrice env t1 t0 amt SUSHISWAP) UNISWAP_V2 SUSHISWAP ''UNI_V2 -> SUSHI''"
  let ?r2 = "roundTrip env t0 t1 amt (getPrice env t0 t1 amt SUSHISWAP)
               (getPrice env t1 t0 amt UNISWAP_V2) SUSHISWAP UNISWAP_V2 ''SUSHI -> UNI_V2''"
  from assms have "c \<in> set (?r1 @ ?r2)"
    unfolding calculateArbitrageProfit_def Let_def
    using foldl_best_member
    by (auto split: list.splits simp del: set_append foldl_Cons)
  then consider "c \<in> set ?r1" | "c \<in> set ?r2" by auto
  then show ?thesis
  proof cases
    case 1
    from roundTrip_member[OF 1] obtain b fin where
      b: "getPrice env t0 t1 amt UNISWAP_V2 = Some b"
      and f: "getAmountOut env t1 t0 (amountOut b) SUSHISWAP = Some fin"
      and p: "amt < fin" "profit c = fin - amt" "cand_amount c = amt"
      by blast
    from getPrice_Some[OF b] f
    have "roundTripVia env t0 t1 amt UNISWAP_V2 SUSHISWAP = Some fin"
      by (simp add: roundTripVia_def)
    with p show ?thesis by auto
  next
    case 2
    from roundTrip_member[OF 2] obtain b fin where
      b: "getPrice env t0 t1 amt SUSHISWAP = Some b"
      and f: "getAmountOut env t1 t0 (amountOut b) UNISWAP_V2 = Some fin"
      and p: "amt < fin" "profit c = fin - amt" "cand_amount c = amt"
      by blast
    from getPrice_Some[OF b] f
    have "roundTripVia env t0 t1 amt SUSHISWAP UNISWAP_V2 = Some fin"
      by (simp add: roundTripVia_def)
    with p show ?thesis by auto
  qed
qed

lemma scanAmounts_bestSoFar:
  "bestSoFar env t0 t1 A acc \<Longrightarrow> set amts \<subseteq> A \<Longrightarrow>
   bestSoFar env t0 t1 A (scanAmounts env t0 t1 amts acc)"
proof (induction amts arbitrary: acc)
  case Nil
  then show ?case by simp
next
  case (Cons amt rest)
  obtain b mp where acc: "acc = (b, mp)" by (cases acc)
  let ?acc' = "case calculateArbitrageProfit env t0 t1 amt of
                 None \<Rightarrow> (b, mp)
               | Some c \<Rightarrow> if profit c > mp then (Some c, profit c) else (b, mp)"
  have "bestSoFar env t0 t1 A ?acc'"
  proof (cases "calculateArbitrageProfit env t0 t1 amt")
    case None
    with Cons.prems(1) acc show ?thesis by simp
  next
    case (Some c)
    from calculateArbitrageProfit_Some[OF Some] have "cand_amount c = amt" by simp
    with Some Cons.prems acc show ?thesis
      by (auto simp: bestSoFar_def)
  qed
  moreover from Cons.prems(2) have "set rest \<subseteq> A" by simp
  ultimately have "bestSoFar env t0 t1 A (scanAmounts env t0 t1 rest ?acc')"
    by (rule Cons.IH)
  then show ?case by (simp add: acc)
qed

lemma bn_div_95_le: "0 \<le> p \<Longrightarrow> bn_div (p * 95) 100 \<le> p"
proof -
  assume p: "0 \<le> p"
  then have "bn_div (p * 95) 100 = (p * 95) div 100"
    by (cases "p = 0") (simp_all add: bn_div_def sgn_if)
  also have "\<dots> \<le> p" using p by linarith
  finally show ?thesis .
qed

text \<open>The shape of a returned opportunity: the best candidate of the loop, above the floor.\<close>

lemma findArbitrageOpportunity_Some:
  assumes "findArbitrageOpportunity env pr now = Some opp"
  obtains a0 a1 best mp where
    "tokens (pair_token0 pr) = Some a0" and "tokens (pair_token1 pr) = Some a1"
    and "10 ^ 15 < mp" and "mp = profit best" and "cand_amount best \<in> set testAmounts"
    and "calculateArbitrageProfit env a0 a1 (cand_amount best) = Some best"
    and "opp = \<lparr> token0 = pair_token0 pr, token1 = pair_token1 pr,
                  asset = a0, amount = cand_amount best,
                  estimatedProfit = mp,
                  profitability = etherFloat mp,
                  path1 = cand_path1 best, path2 = cand_path2 best,
                  router1 = cand_router1 best, router2 = cand_router2 best,
                  minProfit = bn_div (mp * 95) 100,
                  timestamp = now \<rparr>"
proof -
  from assms obtain a0 a1 where t: "tokens (pair_token0 pr) = Some a0"
      "tokens (pair_token1 pr) = Some a1"
    by (auto simp: findArbitrageOpportunity_def split: option.splits)
  obtain b mp where s: "scanAmounts env a0 a1 testAmounts (None, 0) = (b, mp)"
    by (cases "scanAmounts env a0 a1 testAmounts (None, 0)")
  from assms t s obtain best where best: "b = Some best" and mp: "10 ^ 15 < mp"
    and opp: "opp = \<lparr> token0 = pair_token0 pr, token1 = pair_token1 pr,
                           asset = a0, amount = cand_amount best,
                           estimatedProfit = mp,
                           profitability = etherFloat mp,
                           path1 = cand_path1 best, path2 = cand_path2 best,
                           router1 = cand_router1 best, router2 = cand_router2 best,
                           minProfit = bn_div (mp * 95) 100,
                           timestamp = now \<rparr>"
    by (auto simp: findArbitrageOpportunity_def split: option.splits if_splits)
  have "bestSoFar env a0 a1 (set testAmounts) (scanAmounts env a0 a1 testAmounts (None, 0))"
    by (rule scanAmounts_bestSoFar) (simp_all add: bestSoFar_def)
  with s best have inv: "mp = profit best" "cand_amount best \<in> set testAmounts"
      "calculateArbitrageProfit env a0 a1 (cand_amount best) = Some best"
    by (simp_all add: bestSoFar_def)
  from t mp inv opp show thesis by (rule that)
qed

text \<open>
  Claim C3, as the code has it. Every opportunity that \<open>findArbitrageOpportunity\<close>
  returns has \<open>minProfit \<le> estimatedProfit\<close>, where \<open>minProfit\<close> is 95 percent of
  \<open>estimatedProfit\<close>, rounded down; its \<open>estimatedProfit\<close> is strictly above the floor
  of 0.001 ether, so no opportunity with a non-positive estimated profit is built; its
  amount is one of the test amounts; and \<open>estimatedProfit\<close> is what one of the two round
  trips returns at the routers' quotes, less the amount put in. No gas or fee estimate is
  deducted from it.
\<close>

theorem findArbitrageOpportunity_profit:
  assumes "findArbitrageOpportunity env pr now = Some opp"
  shows "minProfit opp \<le> estimatedProfit opp
       \<and> minProfit opp = (estimatedProfit opp * 95) div 100
       \<and> 10 ^ 15 < estimatedProfit opp
       \<and> amount opp \<in> set testAmounts
       \<and> (\<exists>t1 fin. tokens (token0 opp) = Some (asset opp) \<and> tokens (token1 opp) = Some t1
             \<and> (roundTripVia env (asset opp) t1 (amount opp) UNISWAP_V2 SUSHISWAP = Some fin
                  \<or> roundTripVia env (asset opp) t1 (amount opp) SUSHISWAP UNISWAP_V2
                      = Some fin)
             \<and> estimatedProfit opp = fin - amount opp)"
proof -
  from assms obtain a0 a1 best mp where
    t: "tokens (pair_token0 pr) = Some a0" "tokens (pair_token1 pr) = Some a1"
    and mp: "10 ^ 15 < mp"
    and inv: "mp = profit best" "cand_amount best \<in> set testAmounts"
      "calculateArbitrageProfit env a0 a1 (cand_amount best) = Some best"
    and opp: "opp = \<lparr> token0 = pair_token0 pr, token1 = pair_token1 pr,
                  asset = a0, amount = cand_amount best,
                  estimatedProfit = mp,
                  profitability = etherFloat mp,
                  path1 = cand_path1 best, path2 = cand_path2 best,
                  router1 = cand_router1 best, router2 = cand_router2 best,
                  minProfit = bn_div (mp * 95) 100,
                  timestamp = now \<rparr>"
    by (rule findArbitrageOpportunity_Some)
  from calculateArbitrageProfit_Some[OF inv(3)] inv(1) obtain fin where
    fin: "roundTripVia env a0 a1 (cand_amount best) UNISWAP_V2 SUSHISWAP = Some fin
          \<or> roundTripVia env a0 a1 (cand_amount best) SUSHISWAP UNISWAP_V2 = Some fin"
      "mp = fin - cand_amount best"
    by auto
  from mp have pos: "0 \<le> mp" by simp
  have d: "bn_div (mp * 95) 100 = (mp * 95) div 100"
    using mp by (simp add: bn_div_def sgn_if)
  have 1: "minProfit opp \<le> estimatedProfit opp"
    using bn_div_95_le[OF pos] by (simp add: opp)
  have 2: "minProfit opp = (estimatedProfit opp * 95) div 100"
    using d by (simp add: opp)
  have 3: "10 ^ 15 < estimatedProfit opp" using mp by (simp add: opp)
  have 4: "amount opp \<in> set testAmounts" using inv(2) by (simp add: opp)
  have 5: "\<exists>t1 fin. tokens (token0 opp) = Some (asset opp) \<and> tokens (token1 opp) = Some t1
             \<and> (roundTripVia env (asset opp) t1 (amount opp) UNISWAP_V2 SUSHISWAP = Some fin
                  \<or> roundTripVia env (asset opp) t1 (amount opp) SUSHISWAP UNISWAP_V2
                      = Some fin)
             \<and> estimatedProfit opp = fin - amount opp"
    using t fin by (auto simp: opp)
  from 1 2 3 4 5 show ?thesis by blast
qed

text \<open>Every opportunity the scan returns has a positive profitability and amount.\<close>

lemma findArbitrageOpportunity_positive:
  assumes "findArbitrageOpportunity env pr now = Some opp"
  shows "0 < profitability opp \<and> 0 < amount opp"
proof -
  from assms obtain a0 a1 best mp where
    "tokens (pair_token0 pr) = Some a0" and "tokens (pair_token1 pr) = Some a1"
    and mp: "10 ^ 15 < mp" and "mp = profit best"
    and am: "cand_amount best \<in> set testAmounts"
    and "calculateArbitrageProfit env a0 a1 (cand_amount best) = Some best"
    and opp: "opp = \<lparr> token0 = pair_token0 pr, token1 = pair_token1 pr,
                  asset = a0, amount = cand_amount best,
                  estimatedProfit = mp,
                  profitability = etherFloat mp,
                  path1 = cand_path1 best, path2 = cand_path2 best,
                  router1 = cand_router1 best, router2 = cand_router2 best,
                  minProfit = bn_div (mp * 95) 100,
                  timestamp = now \<rparr>"
    by (rule findArbitrageOpportunity_Some)
  from mp have "0 < etherFloat mp" by (simp add: etherFloat_def)
  moreover from am have "0 < cand_amount best"
    by (auto simp: testAmounts_def parseEther_def)
  ultimately show ?thesis by (simp add: opp)
qed

lemma parseEther_inj [simp]: "parseEther a = parseEther b \<longleftrightarrow> a = b"
  by (simp add: parseEther_def)

lemma sample_quotes:
  "getAmountOut sampleChain WETH DAI (parseEther 1) UNISWAP_V2 = Some (parseEther 2000)"
  "getAmountOut sampleChain DAI WETH (parseEther 2000) SUSHISWAP = Some (1002 * 10 ^ 15)"
  "getAmountOut sampleChain DAI WETH (parseEther 1) SUSHISWAP = Some (5 * 10 ^ 14)"
  "getAmountOut sampleChain WETH DAI a SUSHISWAP = None"
  "getAmountOut sampleChain DAI WETH a UNISWAP_V2 = None"
  "a \<noteq> parseEther 1 \<Longrightarrow> getAmountOut sampleChain WETH DAI a UNISWAP_V2 = None"
  by (simp_all add: getAmountOut_def sampleChain_def WETH_def DAI_def parseEther_def)

lemma sample_candidates:
  "calculateArbitrageProfit sampleChain WETH DAI (parseEther 1)
     = Some \<lparr> profit = 2 * 10 ^ 15, cand_amount = parseEther 1,
              cand_path1 = [WETH, DAI], cand_path2 = [DAI, WETH],
              cand_router1 = routers UNISWAP_V2, cand_router2 = routers SUSHISWAP,
              route = ''UNI_V2 -> SUSHI'' \<rparr>"
  "a \<noteq> parseEther 1 \<Longrightarrow> calculateArbitrageProfit sampleChain WETH DAI a = None"
  by (simp_all add: calculateArbitrageProfit_def roundTrip_def getPrice_def sample_quotes
        Let_def) (simp_all add: parseEther_def)

lemma sample_scan:
  "findArbitrageOpportunity sampleChain samplePair 0 = Some sampleOpportunity"
  by (simp add: findArbitrageOpportunity_def samplePair_def tokens_def testAmounts_def
        sample_candidates sampleOpportunity_def routers_def etherFloat_def bn_div_def)

theorem findArbitrageOpportunity_profit_witness:
  "findArbitrageOpportunity sampleChain samplePair 0 = Some sampleOpportunity
   \<and> minProfit sampleOpportunity \<le> estimatedProfit sampleOpportunity
   \<and> 10 ^ 15 < estimatedProfit sampleOpportunity
   \<and> amount sampleOpportunity \<in> set testAmounts"
  using findArbitrageOpportunity_profit [OF sample_scan] sample_scan by simp

text \<open>
  On the sample chain the scan returns an opportunity with an estimated profit of 0.002
  ether, while \<open>calculateGasCosts\<close> puts the gas of the trade at 0.03 ether.
\<close>

theorem profit_below_gas_cost:
  "findArbitrageOpportunity sampleChain samplePair 0 = Some sampleOpportunity
   \<and> estimatedProfit sampleOpportunity = 2 * 10 ^ 15
   \<and> calculateGasCosts sampleChain = 3 * 10 ^ 16
   \<and> estimatedProfit sampleOpportunity - calculateGasCosts sampleChain < 0"
proof -
  have g: "calculateGasCosts sampleChain = 3 * 10 ^ 16"
    by (simp add: calculateGasCosts_def sampleChain_def parseGwei_def)
  have p: "estimatedProfit sampleOpportunity = 2 * 10 ^ 15"
    by (simp add: sampleOpportunity_def)
  show ?thesis
    unfolding g p using sample_scan by simp
qed

section \<open>Properties of the QuantumSignalProcessor\<close>


lemma profitScore_le: "profitScore opp \<le> 1"
  by (simp add: profitScore_def)

lemma amountScore_le: "amountScore opp \<le> 1"
  by (simp add: amountScore_def)

lemma fallback_strength_le: "(profitScore opp + amountScore opp) / 2 \<le> 1"
  using profitScore_le[of opp] amountScore_le[of opp] by simp

lemma fallback_strength_nonneg:
  assumes "0 \<le> profitability opp" and "0 \<le> amount opp"
  shows "0 \<le> (profitScore opp + amountScore opp) / 2"
proof -
  have "0 \<le> profitScore opp" using assms(1) by (simp add: profitScore_def)
  moreover have "0 \<le> amountScore opp" using assms(2) by (simp add: amountScore_def)
  ultimately show ?thesis by simp
qed

lemma clamp_max_min: "lo \<le> hi \<Longrightarrow> max lo (min hi x) = clamp x lo hi"
  by (auto simp: clamp_def)

lemma clamp_bounds: "lo \<le> hi \<Longrightarrow> lo \<le> clamp x lo hi \<and> clamp x lo hi \<le> hi"
  by (auto simp: clamp_def)

text \<open>
  Claim C8. Write \<open>profitRatio\<close> for \<open>profitScore = min(10 * profitability, 1)\<close> and
  \<open>sizeRatio\<close> for \<open>amountScore = min(amount / 10^20, 1)\<close>. For every opportunity whose
  profitability and amount are not negative, and so for every opportunity that
  \<open>findArbitrageOpportunity\<close> returns (the scan cycle passes no other to the signal
  processor), the fallback signal has strength \<open>clamp((profitRatio + sizeRatio) / 2, 0, 1)\<close>,
  confidence \<open>clamp(strength, 0.3, 0.8)\<close> and source "fallback"; the strength lies in
  \<open>[0, 1]\<close> and the confidence in \<open>[0.3, 0.8]\<close>. The source, the upper bound of the
  strength and the clamp of the confidence hold of any opportunity object.
\<close>

theorem getFallbackSignal_clamped:
  "source (getFallbackSignal opp t) = ''fallback''
   \<and> signal_strength (getFallbackSignal opp t) = Num ((profitScore opp + amountScore opp) / 2)
   \<and> (profitScore opp + amountScore opp) / 2 \<le> 1
   \<and> confidence (getFallbackSignal opp t)
       = Num (clamp ((profitScore opp + amountScore opp) / 2) (3 / 10) (8 / 10))
   \<and> 3 / 10 \<le> clamp ((profitScore opp + amountScore opp) / 2) (3 / 10) (8 / 10)
   \<and> clamp ((profitScore opp + amountScore opp) / 2) (3 / 10) (8 / 10) \<le> 8 / 10
   \<and> (0 \<le> profitability opp \<and> 0 \<le> amount opp \<longrightarrow>
        signal_strength (getFallbackSignal opp t)
          = Num (clamp ((profitScore opp + amountScore opp) / 2) 0 1)
        \<and> confidence (getFallbackSignal opp t)
          = Num (clamp (clamp ((profitScore opp + amountScore opp) / 2) 0 1) (3 / 10) (8 / 10))
        \<and> 0 \<le> (profitScore opp + amountScore opp) / 2
        \<and> isNumberInUnit (signal_strength (getFallbackSignal opp t)))
   \<and> (findArbitrageOpportunity env pr now = Some opp \<longrightarrow>
        0 \<le> profitability opp \<and> 0 \<le> amount opp
        \<and> signal_strength (getFallbackSignal opp t)
          = Num (clamp ((profitScore opp + amountScore opp) / 2) 0 1)
        \<and> confidence (getFallbackSignal opp t)
          = Num (clamp (clamp ((profitScore opp + amountScore opp) / 2) 0 1) (3 / 10) (8 / 10))
        \<and> isNumberInUnit (signal_strength (getFallbackSignal opp t)))"
proof -
  let ?s = "(profitScore opp + amountScore opp) / 2"
  have 1: "source (getFallbackSignal opp t) = ''fallback''"
    and 2: "signal_strength (getFallbackSignal opp t) = Num ?s"
    by (simp_all add: getFallbackSignal_def Let_def)
  have 3: "?s \<le> 1" by (rule fallback_strength_le)
  have 4: "confidence (getFallbackSignal opp t) = Num (clamp ?s (3 / 10) (8 / 10))"
    by (simp add: getFallbackSignal_def Let_def clamp_max_min)
  have 5: "3 / 10 \<le> clamp ?s (3 / 10) (8 / 10) \<and> clamp ?s (3 / 10) (8 / 10) \<le> 8 / 10"
    by (rule clamp_bounds) simp
  have 6: "signal_strength (getFallbackSignal opp t) = Num (clamp ?s 0 1)
        \<and> confidence (getFallbackSignal opp t)
          = Num (clamp (clamp ?s 0 1) (3 / 10) (8 / 10))
        \<and> 0 \<le> ?s
        \<and> isNumberInUnit (signal_strength (getFallbackSignal opp t))"
    if a: "0 \<le> profitability opp \<and> 0 \<le> amount opp"
  proof -
    from a have n: "0 \<le> ?s" using fallback_strength_nonneg[of opp] by blast
    with 3 have c: "clamp ?s 0 1 = ?s" by (simp add: clamp_def)
    from 2 n 3 have u: "isNumberInUnit (signal_strength (getFallbackSignal opp t))"
      by (simp add: isNumberInUnit_def)
    from 2 have s2: "signal_strength (getFallbackSignal opp t) = Num (clamp ?s 0 1)"
      by (simp only: c)
    from 4 have c2: "confidence (getFallbackSignal opp t)
          = Num (clamp (clamp ?s 0 1) (3 / 10) (8 / 10))"
      by (simp only: c)
    from s2 c2 n u show ?thesis by blast
  qed
  have 7: "0 \<le> profitability opp \<and> 0 \<le> amount opp"
    if "findArbitrageOpportunity env pr now = Some opp"
    using findArbitrageOpportunity_positive[OF that] by auto
  from 1 2 3 4 5 6 7 show ?thesis by blast
qed

theorem getFallbackSignal_clamped_witness:
  "findArbitrageOpportunity sampleChain samplePair 0 = Some sampleOpportunity
   \<and> signal_strength (getFallbackSignal sampleOpportunity []) = Num (15 / 1000)
   \<and> clamp (15 / 1000) 0 1 = 15 / 1000
   \<and> isNumberInUnit (signal_strength (getFallbackSignal sampleOpportunity []))
   \<and> confidence (getFallbackSignal sampleOpportunity []) = Num (3 / 10)
   \<and> source (getFallbackSignal sampleOpportunity []) = ''fallback''"
proof -
  have s: "(profitScore sampleOpportunity + amountScore sampleOpportunity) / 2 = 15 / 1000"
    by (simp add: profitScore_def amountScore_def sampleOpportunity_def parseEther_def)
  have h: "0 \<le> profitability sampleOpportunity \<and> 0 \<le> amount sampleOpportunity"
    by (simp add: sampleOpportunity_def parseEther_def)
  show ?thesis
    using getFallbackSignal_clamped [of sampleOpportunity "[]" sampleChain samplePair 0] h
      sample_scan
    unfolding s by (simp add: clamp_def isNumberInUnit_def)
qed

text \<open>
  Claim C2 at an input on which the code breaks it: the processor is initialised and the
  script answers, without an error, a strength of 1.5 and a confidence of 2. The signal
  returned carries these values with source "quantum"; it is not the fallback signal, and
  \<open>validateSignal\<close>, which \<open>processSignal\<close> never calls, rejects it.
\<close>

theorem processSignal_passes_out_of_range:
  "source (processSignal True (Inr outOfRangeResult) sampleOpportunity []) = ''quantum''
   \<and> signal_strength (processSignal True (Inr outOfRangeResult) sampleOpportunity [])
       = Num (3 / 2)
   \<and> confidence (processSignal True (Inr outOfRangeResult) sampleOpportunity []) = Num 2
   \<and> \<not> validateSignal (processSignal True (Inr outOfRangeResult) sampleOpportunity [])
   \<and> processSignal True (Inr outOfRangeResult) sampleOpportunity []
       \<noteq> getFallbackSignal sampleOpportunity []"
  by (simp add: processSignal_def outOfRangeResult_def truthy_def validateSignal_def
        isNumberInUnit_def getFallbackSignal_def Let_def)

section \<open>Properties of the FlashbotsExecutor\<close>


lemma polledBlocks_logCall [simp]:
  "polledBlocks (logCall c ex)
     = polledBlocks ex @ (case c of GetBundleStats b \<Rightarrow> [b] | _ \<Rightarrow> [])"
  by (simp add: polledBlocks_def logCall_def)

lemma waitedBlocks_logCall [simp]:
  "waitedBlocks (logCall c ex)
     = waitedBlocks ex @ (case c of WaitForBlock b \<Rightarrow> [b] | _ \<Rightarrow> [])"
  by (simp add: waitedBlocks_def logCall_def)

lemma polledBlocks_update [simp]:
  "polledBlocks (ex\<lparr>included := n\<rparr>) = polledBlocks ex"
  "polledBlocks (ex\<lparr>submitted := n\<rparr>) = polledBlocks ex"
  "polledBlocks (ex\<lparr>failed := n\<rparr>) = polledBlocks ex"
  by (simp_all add: polledBlocks_def)

lemma waitedBlocks_update [simp]:
  "waitedBlocks (ex\<lparr>included := n\<rparr>) = waitedBlocks ex"
  "waitedBlocks (ex\<lparr>submitted := n\<rparr>) = waitedBlocks ex"
  "waitedBlocks (ex\<lparr>failed := n\<rparr>) = waitedBlocks ex"
  by (simp_all add: waitedBlocks_def)

lemma included_logCall [simp]: "included (logCall c ex) = included ex"
  by (simp add: logCall_def)

lemma inclusionLoop_polls:
  "length (polledBlocks (snd (inclusionLoop fb r b k ex))) \<le> length (polledBlocks ex) + k"
proof (induction k arbitrary: b ex)
  case 0
  then show ?case by simp
next
  case (Suc k)
  show ?case
  proof (cases "blockArrives fb b")
    case (Inl e)
    then show ?thesis by (simp add: Let_def)
  next
    case (Inr b')
    show ?thesis
    proof (cases "getBundleStats fb (response_bundleHash r) b")
      case (Inl e)
      with Inr show ?thesis by (simp add: Let_def)
    next
      case st: (Inr stats)
      show ?thesis
      proof (cases "isMined stats")
        case True
        with Inr st show ?thesis by (simp add: Let_def)
      next
        case False
        let ?ex2 = "logCall (GetBundleStats b) (logCall (WaitForBlock b) ex)"
        from Suc.IH[of "b + 1" ?ex2]
        have "length (polledBlocks (snd (inclusionLoop fb r (b + 1) k ?ex2)))
                \<le> length (polledBlocks ex) + Suc k"
          by simp
        with Inr st False show ?thesis by (simp add: Let_def)
      qed
    qed
  qed
qed

lemma inclusionLoop_polled_window:
  "\<exists>j\<le>k. polledBlocks (snd (inclusionLoop fb r b k ex)) = polledBlocks ex @ [b ..< b + j]"
proof (induction k arbitrary: b ex)
  case 0
  then show ?case by simp
next
  case (Suc k)
  show ?case
  proof (cases "blockArrives fb b")
    case (Inl e)
    then have "polledBlocks (snd (inclusionLoop fb r b (Suc k) ex)) = polledBlocks ex @ [b ..< b + 0]"
      by (simp add: Let_def)
    then show ?thesis by blast
  next
    case (Inr b')
    let ?ex2 = "logCall (GetBundleStats b) (logCall (WaitForBlock b) ex)"
    have one: "[b ..< b + 1] = [b]" by simp
    show ?thesis
    proof (cases "getBundleStats fb (response_bundleHash r) b")
      case (Inl e)
      with Inr have "polledBlocks (snd (inclusionLoop fb r b (Suc k) ex))
                       = polledBlocks ex @ [b ..< b + 1]"
        unfolding one by (simp add: Let_def)
      moreover have "(1::nat) \<le> Suc k" by simp
      ultimately show ?thesis by blast
    next
      case st: (Inr stats)
      show ?thesis
      proof (cases "isMined stats")
        case True
        with Inr st have "polledBlocks (snd (inclusionLoop fb r b (Suc k) ex))
                       = polledBlocks ex @ [b ..< b + 1]"
          unfolding one by (simp add: Let_def)
        moreover have "(1::nat) \<le> Suc k" by simp
        ultimately show ?thesis by blast
      next
        case False
        from Suc.IH[of "b + 1" ?ex2] obtain j where j: "j \<le> k"
          and p: "polledBlocks (snd (inclusionLoop fb r (b + 1) k ?ex2))
                    = polledBlocks ?ex2 @ [b + 1 ..< b + 1 + j]"
          by blast
        have u: "[b ..< b + Suc j] = b # [b + 1 ..< b + 1 + j]"
          by (simp add: upt_conv_Cons)
        from Inr st False p have "polledBlocks (snd (inclusionLoop fb r b (Suc k) ex))
                       = polledBlocks ex @ [b ..< b + Suc j]"
          unfolding u by (simp add: Let_def)
        moreover from j have "Suc j \<le> Suc k" by simp
        ultimately show ?thesis by blast
      qed
    qed
  qed
qed

lemma pendingDuring_Suc:
  "pendingDuring fb r b (Suc k) \<longleftrightarrow>
     (case blockArrives fb b of Inl e \<Rightarrow> False | Inr x \<Rightarrow> True)
     \<and> (case getBundleStats fb (response_bundleHash r) b of
          Inl e \<Rightarrow> False | Inr stats \<Rightarrow> \<not> isMined stats)
     \<and> pendingDuring fb r (Suc b) k"
proof -
  have "[b ..< b + Suc k] = b # [Suc b ..< Suc b + k]"
    by (simp add: upt_conv_Cons)
  then show ?thesis by (simp add: pendingDuring_def)
qed

lemma inclusionLoop_pending:
  "pendingDuring fb r b k \<Longrightarrow>
   fst (inclusionLoop fb r b k ex) = Inr None
   \<and> polledBlocks (snd (inclusionLoop fb r b k ex)) = polledBlocks ex @ [b ..< b + k]
   \<and> waitedBlocks (snd (inclusionLoop fb r b k ex)) = waitedBlocks ex @ [b ..< b + k]
   \<and> included (snd (inclusionLoop fb r b k ex)) = included ex"
proof (induction k arbitrary: b ex)
  case 0
  then show ?case by simp
next
  case (Suc k)
  from Suc.prems obtain x stats where
    a: "blockArrives fb b = Inr x"
    and s: "getBundleStats fb (response_bundleHash r) b = Inr stats" "\<not> isMined stats"
    and rest: "pendingDuring fb r (Suc b) k"
    by (auto simp: pendingDuring_Suc split: sum.splits)
  let ?ex2 = "logCall (GetBundleStats b) (logCall (WaitForBlock b) ex)"
  have u: "[b ..< b + Suc k] = b # [Suc b ..< Suc b + k]"
    by (simp add: upt_conv_Cons)
  have step: "inclusionLoop fb r b (Suc k) ex = inclusionLoop fb r (Suc b) k ?ex2"
    using a s by (simp add: Let_def)
  from Suc.IH[OF rest, of ?ex2] show ?case
    unfolding step u by simp
qed

lemma submitBundle_log:
  "submitBundle fb bundle t ex = (resp, ex1) \<Longrightarrow>
   polledBlocks ex1 = polledBlocks ex \<and> waitedBlocks ex1 = waitedBlocks ex"
  by (auto simp: submitBundle_def split: sum.splits)

lemma submitPhase_log:
  "polledBlocks (snd (submitPhase fb txs tb ex)) = polledBlocks ex
   \<and> waitedBlocks (snd (submitPhase fb txs tb ex)) = waitedBlocks ex"
  by (auto simp: submitPhase_def Let_def split: sum.splits prod.splits
        dest: submitBundle_log)

lemma executeBundle_returns: "\<exists>res. fst (executeBundle fb txs tb ex) = Inr res"
  by (simp add: executeBundle_def split: prod.splits sum.splits)

lemma waitForBundleInclusion_snd:
  "snd (waitForBundleInclusion fb r t k ex) = snd (inclusionLoop fb r t k ex)"
  by (cases "inclusionLoop fb r t k ex")
     (auto simp: waitForBundleInclusion_def split: sum.splits option.splits)

lemma executeBundle_submitted:
  "submitPhase fb txs tb ex = (Inr (r, t), ex') \<Longrightarrow>
   executeBundle fb txs tb ex
     = (Inr (fst (waitForBundleInclusion fb r t 3 ex')),
        snd (inclusionLoop fb r t 3 ex'))"
  by (simp add: executeBundle_def case_prod_beta waitForBundleInclusion_snd)

lemma executeBundle_polls:
  "length (polledBlocks (snd (executeBundle fb txs tb ex))) \<le> length (polledBlocks ex) + 3"
proof (cases "submitPhase fb txs tb ex")
  case (Pair out ex')
  from submitPhase_log[of fb txs tb ex] Pair
  have l: "polledBlocks ex' = polledBlocks ex" by simp
  show ?thesis
  proof (cases out)
    case (Inl e)
    with Pair l show ?thesis by (simp add: executeBundle_def)
  next
    case (Inr rt)
    obtain r t where rt: "rt = (r, t)" by (cases rt)
    from Pair Inr rt have "submitPhase fb txs tb ex = (Inr (r, t), ex')" by simp
    from executeBundle_submitted[OF this] inclusionLoop_polls[of fb r t 3 ex'] l
    show ?thesis by simp
  qed
qed

lemma executeBundle_polled_window:
  assumes "fst (submitPhase fb txs tb ex) = Inr (r, t)"
  shows "\<exists>j\<le>3. polledBlocks (snd (executeBundle fb txs tb ex)) = polledBlocks ex @ [t ..< t + j]"
proof (cases "submitPhase fb txs tb ex")
  case (Pair out ex')
  with assms have out: "out = Inr (r, t)" by simp
  from submitPhase_log[of fb txs tb ex] Pair
  have l: "polledBlocks ex' = polledBlocks ex" by simp
  from Pair out have "submitPhase fb txs tb ex = (Inr (r, t), ex')" by simp
  from executeBundle_submitted[OF this] inclusionLoop_polled_window[of 3 fb r t ex'] l
  show ?thesis by simp
qed

lemma executeBundle_submit_error:
  assumes "fst (submitPhase fb txs tb ex) = Inl e"
  shows "fst (executeBundle fb txs tb ex)
           = Inr \<lparr> success = False, error = Some e, bundleHash = None, txHash = None,
                    blockNumber = None \<rparr>
         \<and> polledBlocks (snd (executeBundle fb txs tb ex)) = polledBlocks ex
         \<and> waitedBlocks (snd (executeBundle fb txs tb ex)) = waitedBlocks ex
         \<and> failed (snd (executeBundle fb txs tb ex)) = failed ex + 1"
proof (cases "submitPhase fb txs tb ex")
  case (Pair out ex')
  with assms have out: "out = Inl e" by simp
  from submitPhase_log[of fb txs tb ex] Pair
  have l: "polledBlocks ex' = polledBlocks ex" "waitedBlocks ex' = waitedBlocks ex" by simp_all
  have f: "failed ex' = failed ex"
    using Pair out
    by (auto simp: submitPhase_def submitBundle_def Let_def logCall_def
          split: sum.splits prod.splits if_splits)
  from Pair out l f show ?thesis by (simp add: executeBundle_def)
qed

lemma submitPhase_rejected:
  assumes "resolveTarget fb tb = Inr t" and "prepareBundleTransactions fb txs \<noteq> []"
    and "response_error (fst (submitBundle fb (prepareBundleTransactions fb txs) t ex))
           = Some msg"
    and "msg \<noteq> []"
  shows "fst (submitPhase fb txs tb ex) = Inl (''Bundle submission failed: '' @ msg)"
proof (cases "submitBundle fb (prepareBundleTransactions fb txs) t ex")
  case (Pair resp ex1)
  with assms(3) have "response_error resp = Some msg" by simp
  with assms(1,2,4) Pair show ?thesis
    by (simp add: submitPhase_def Let_def truthy_def)
qed

lemma executeBundle_pending:
  assumes "fst (submitPhase fb txs tb ex) = Inr (r, t)" and "pendingDuring fb r t 3"
  shows "fst (executeBundle fb txs tb ex)
           = Inr \<lparr> success = False, error = Some ''Bundle not included within wait period'',
                    bundleHash = response_bundleHash r, txHash = None, blockNumber = None \<rparr>
         \<and> polledBlocks (snd (executeBundle fb txs tb ex)) = polledBlocks ex @ [t, t + 1, t + 2]"
proof (cases "submitPhase fb txs tb ex")
  case (Pair out ex')
  with assms(1) have out: "out = Inr (r, t)" by simp
  from submitPhase_log[of fb txs tb ex] Pair
  have l: "polledBlocks ex' = polledBlocks ex" by simp
  have u: "[t ..< t + 3] = [t, t + 1, t + 2]"
    by (simp add: upt_conv_Cons)
  from inclusionLoop_pending[OF assms(2), of ex'] l u
  have "fst (inclusionLoop fb r t 3 ex') = Inr None"
    "polledBlocks (snd (inclusionLoop fb r t 3 ex')) = polledBlocks ex @ [t, t + 1, t + 2]"
    by simp_all
  with executeBundle_submitted[of fb txs tb ex r t ex'] Pair out show ?thesis
    by (cases "inclusionLoop fb r t 3 ex'") (simp add: waitForBundleInclusion_def)
qed

text \<open>
  Claim C6, as the code has it. \<open>executeBundle\<close> always resolves to a result object and
  never rejects. It asks the relay for the inclusion status at most three times, for the
  target block and the blocks that follow it, in order. When the
  submission was accepted and the bundle is pending at the target block and the two
  blocks after it, the result is \<open>success = false\<close> with the error "Bundle not included
  within wait period", and exactly these three blocks were polled. When anything before
  the wait throws, the result is \<open>success = false\<close> with the message thrown, and no
  block is waited for or polled; a submission that failed with a non-empty message throws
  "Bundle submission failed: " followed by that message.
\<close>

theorem executeBundle_outcome:
  "(\<exists>res. fst (executeBundle fb txs tb ex) = Inr res)
   \<and> length (polledBlocks (snd (executeBundle fb txs tb ex))) \<le> length (polledBlocks ex) + 3
   \<and> (fst (submitPhase fb txs tb ex) = Inr (r, t) \<longrightarrow>
        (\<exists>j\<le>3. polledBlocks (snd (executeBundle fb txs tb ex))
                  = polledBlocks ex @ [t ..< t + j]))
   \<and> (fst (submitPhase fb txs tb ex) = Inr (r, t) \<and> pendingDuring fb r t 3 \<longrightarrow>
        fst (executeBundle fb txs tb ex)
          = Inr \<lparr> success = False, error = Some ''Bundle not included within wait period'',
                   bundleHash = response_bundleHash r, txHash = None, blockNumber = None \<rparr>
        \<and> polledBlocks (snd (executeBundle fb txs tb ex)) = polledBlocks ex @ [t, t + 1, t + 2])
   \<and> (fst (submitPhase fb txs tb ex) = Inl e \<longrightarrow>
        fst (executeBundle fb txs tb ex)
          = Inr \<lparr> success = False, error = Some e, bundleHash = None, txHash = None,
                   blockNumber = None \<rparr>
        \<and> polledBlocks (snd (executeBundle fb txs tb ex)) = polledBlocks ex
        \<and> waitedBlocks (snd (executeBundle fb txs tb ex)) = waitedBlocks ex)
   \<and> (resolveTarget fb tb = Inr t' \<and> prepareBundleTransactions fb txs \<noteq> []
        \<and> response_error (fst (submitBundle fb (prepareBundleTransactions fb txs) t' ex))
            = Some msg
        \<and> msg \<noteq> [] \<longrightarrow>
        fst (submitPhase fb txs tb ex) = Inl (''Bundle submission failed: '' @ msg))"
  using executeBundle_returns[of fb txs tb ex] executeBundle_polls[of fb txs tb ex]
    executeBundle_pending[of fb txs tb ex r t] executeBundle_submit_error[of fb txs tb ex e]
    submitPhase_rejected[of fb tb t' txs ex msg]
    executeBundle_polled_window[of fb txs tb ex r t]
  by blast

lemma sample_prepared:
  "prepareBundleTransactions fb [sampleTransaction]
     = [sampleTransaction\<lparr>gasPrice := Some 0, tx_type := Some 2, maxFeePerGas := Some 0,
                            maxPriorityFeePerGas := Some 0\<rparr>]"
  by (simp add: prepareBundleTransactions.simps sampleTransaction_def falsyGas_def
        falsyNat_def Let_def)

lemma pending_submitPhase:
  "submitPhase pendingRelay [sampleTransaction] (Some 100) newExecutor
     = (Inr (\<lparr> response_bundleHash = Some ''0xb1'', response_error = None \<rparr>, 100),
        newExecutor\<lparr>relayLog := [SendBundle 100], submitted := 1\<rparr>)"
  by (simp add: submitPhase_def resolveTarget_def sample_prepared falsyNat_def Let_def
        submitBundle_def pendingRelay_def truthy_def logCall_def newExecutor_def)

lemma pending_pendingDuring:
  "pendingDuring pendingRelay r 100 3"
  by (simp add: pendingDuring_def pendingRelay_def upt_conv_Cons)

lemma rejecting_submitBundle:
  "submitBundle rejectingRelay bundle t ex
     = (\<lparr> response_bundleHash = None, response_error = Some ''relay rejected'' \<rparr>,
        logCall (SendBundle t) ex)"
  by (simp add: submitBundle_def rejectingRelay_def pendingRelay_def)

theorem executeBundle_outcome_witness:
  "fst (executeBundle pendingRelay [sampleTransaction] (Some 100) newExecutor)
     = Inr \<lparr> success = False, error = Some ''Bundle not included within wait period'',
              bundleHash = Some ''0xb1'', txHash = None, blockNumber = None \<rparr>
   \<and> polledBlocks (snd (executeBundle pendingRelay [sampleTransaction] (Some 100) newExecutor))
       = [100, 101, 102]
   \<and> fst (executeBundle rejectingRelay [sampleTransaction] (Some 100) newExecutor)
       = Inr \<lparr> success = False, error = Some ''Bundle submission failed: relay rejected'',
                bundleHash = None, txHash = None, blockNumber = None \<rparr>
   \<and> polledBlocks (snd (executeBundle rejectingRelay [sampleTransaction] (Some 100) newExecutor))
       = []
   \<and> waitedBlocks (snd (executeBundle rejectingRelay [sampleTransaction] (Some 100) newExecutor))
       = []"
proof -
  have n: "polledBlocks newExecutor = []" "waitedBlocks newExecutor = []"
    by (simp_all add: polledBlocks_def waitedBlocks_def newExecutor_def)
  have p: "fst (submitPhase pendingRelay [sampleTransaction] (Some 100) newExecutor)
             = Inr (\<lparr> response_bundleHash = Some ''0xb1'', response_error = None \<rparr>, 100)"
    by (simp add: pending_submitPhase)
  have r: "fst (submitPhase rejectingRelay [sampleTransaction] (Some 100) newExecutor)
             = Inl ''Bundle submission failed: relay rejected''"
    using executeBundle_outcome
            [of rejectingRelay "[sampleTransaction]" "Some 100" newExecutor
                "\<lparr> response_bundleHash = None, response_error = None \<rparr>" 0 "[]" 100
                "''relay rejected''"]
    by (simp add: sample_prepared rejecting_submitBundle resolveTarget_def falsyNat_def)
  show ?thesis
    using executeBundle_outcome
            [of pendingRelay "[sampleTransaction]" "Some 100" newExecutor
                "\<lparr> response_bundleHash = Some ''0xb1'', response_error = None \<rparr>" 100
                "[]" 100 "[]"]
          executeBundle_outcome
            [of rejectingRelay "[sampleTransaction]" "Some 100" newExecutor
                "\<lparr> response_bundleHash = None, response_error = None \<rparr>" 0
                "''Bundle submission failed: relay rejected''" 100 "[]"]
          p r pending_pendingDuring n
    by simp
qed

text \<open>
  With the bundle pending for the whole window, the error of the result is not the string
  "not included". And when the relay rejects the submission with an empty message, the
  test of \<open>bundleResponse.error\<close> takes the submission for accepted and the three blocks
  are polled all the same.
\<close>

theorem not_included_message_and_silent_rejection:
  "fst (executeBundle pendingRelay [sampleTransaction] (Some 100) newExecutor)
     = Inr \<lparr> success = False, error = Some ''Bundle not included within wait period'',
              bundleHash = Some ''0xb1'', txHash = None, blockNumber = None \<rparr>
   \<and> Some ''Bundle not included within wait period'' \<noteq> Some ''not included''
   \<and> fst (submitBundle silentRejectingRelay
            (prepareBundleTransactions silentRejectingRelay [sampleTransaction]) 100 newExecutor)
       = \<lparr> response_bundleHash = None, response_error = Some [] \<rparr>
   \<and> polledBlocks
        (snd (executeBundle silentRejectingRelay [sampleTransaction] (Some 100) newExecutor))
       = [100, 101, 102]"
proof -
  have n: "polledBlocks newExecutor = []"
    by (simp add: polledBlocks_def newExecutor_def)
  have 1: "fst (executeBundle pendingRelay [sampleTransaction] (Some 100) newExecutor)
     = Inr \<lparr> success = False, error = Some ''Bundle not included within wait period'',
              bundleHash = Some ''0xb1'', txHash = None, blockNumber = None \<rparr>"
    using executeBundle_pending[of pendingRelay "[sampleTransaction]" "Some 100" newExecutor
            "\<lparr> response_bundleHash = Some ''0xb1'', response_error = None \<rparr>" 100]
      pending_pendingDuring
    by (simp add: pending_submitPhase)
  have s: "submitBundle silentRejectingRelay txs 100 newExecutor
            = (\<lparr> response_bundleHash = None, response_error = Some [] \<rparr>,
               logCall (SendBundle 100) newExecutor)" for txs
    by (simp add: submitBundle_def silentRejectingRelay_def pendingRelay_def)
  have sp: "fst (submitPhase silentRejectingRelay [sampleTransaction] (Some 100) newExecutor)
             = Inr (\<lparr> response_bundleHash = None, response_error = Some [] \<rparr>, 100)"
    by (simp add: submitPhase_def resolveTarget_def sample_prepared falsyNat_def Let_def s
          truthy_def)
  have pd: "pendingDuring silentRejectingRelay r 100 3" for r
    by (simp add: pendingDuring_def silentRejectingRelay_def pendingRelay_def upt_conv_Cons)
  have 4: "polledBlocks
        (snd (executeBundle silentRejectingRelay [sampleTransaction] (Some 100) newExecutor))
       = [100, 101, 102]"
    using executeBundle_pending[OF sp pd] n by simp
  from 1 4 show ?thesis by (simp add: s)
qed

section \<open>Properties of the PriceMonitor\<close>


lemma exact_fields [simp]:
  "dadd exactArith = exactAdd" "dsub exactArith = exactSub" "ddiv exactArith = exactDiv"
  "dpow2 exactArith = exactPow2" "dsqrt exactArith = exactSqrt"
  by (simp_all add: exactArith_def)

lemma exactSub_Num [simp]: "exactSub (Num x) (Num y) = Num (x - y)"
  by (simp add: exactSub_def)






lemma successiveReturns_short [simp]:
  "successiveReturns [] = []" "successiveReturns [p] = []"
  by (simp_all add: successiveReturns_def)














lemma sample_history [simp]:
  "samplePrices ps ''WETH'' = Some (map (\<lambda>p. \<lparr> pp_price = Num p, pp_timestamp = 0 \<rparr>) ps)"
  by (simp add: samplePrices_def)




section \<open>Properties of the scan cycle\<close>


lemma inFlight_le_cycles: "inFlight s a \<le> length (cycles s)"
  by (simp add: inFlight_def)

lemma length_advance: "length (advance i cs) \<le> length cs"
  by (auto simp: advance_def split: list.splits)

lemma step_cycles:
  "step e s = Some s' \<Longrightarrow>
   length (cycles s') \<le> length (cycles s) + (if isTimerFires e then 1 else 0)"
proof (cases e)
  case TimerFires
  assume "step e s = Some s'"
  with TimerFires show ?thesis by (auto simp: step.simps split: if_splits)
next
  case (ScanSettles i env now sig ra)
  assume "step e s = Some s'"
  with ScanSettles length_advance[of i "cycles s"] show ?thesis
    by (auto simp: step.simps Let_def split: if_splits option.splits)
next
  case (ScanThrows i)
  assume "step e s = Some s'"
  with ScanThrows length_advance[of i "cycles s"] show ?thesis
    by (auto simp: step.simps split: if_splits)
next
  case (ExecutionSettles i)
  assume "step e s = Some s'"
  with ExecutionSettles length_advance[of i "cycles s"] show ?thesis
    by (auto simp: step.simps split: if_splits)
qed

lemma run_cycles:
  "run es s = Some s' \<Longrightarrow>
   length (cycles s') \<le> length (cycles s) + length (filter isTimerFires es)"
proof (induction es arbitrary: s)
  case Nil
  then show ?case by simp
next
  case (Cons e es)
  from Cons.prems obtain s1 where s1: "step e s = Some s1" and r: "run es s1 = Some s'"
    by (auto split: option.splits)
  from Cons.IH[OF r] step_cycles[OF s1] show ?case by (auto split: if_splits)
qed

text \<open>
  Claim C7, as the code has it. No in-flight set is kept or checked. A scan cycle awaits
  each \<open>executeArbitrage\<close> before it goes on to its next pair, so it has at most one
  execution in flight, and the executions in flight for an asset are at most as many as
  the scan cycles that are under way, which are at most as many as the timer has started:
  with a single cycle there is at most one. Cycles that overlap are not kept from
  executing the same asset at the same time.
\<close>

theorem in_flight_bounded_by_cycles:
  assumes "run es started = Some s"
  shows "inFlight s a \<le> length (cycles s)
       \<and> length (cycles s) \<le> length (filter isTimerFires es)
       \<and> (length (filter isTimerFires es) \<le> 1 \<longrightarrow> inFlight s a \<le> 1)"
proof -
  have 1: "inFlight s a \<le> length (cycles s)" by (rule inFlight_le_cycles)
  from run_cycles[OF assms] have 2: "length (cycles s) \<le> length (filter isTimerFires es)"
    by (simp add: started_def)
  from 1 2 show ?thesis by auto
qed

lemma strong_shouldExecute:
  "shouldExecute (Some sampleOpportunity) strongSignal approval"
  by (simp add: shouldExecute_def approval_value confidenceAbove_def strongSignal_def
        sampleOpportunity_def)

lemma hd_supportedPairs: "hd supportedPairs = samplePair"
  by (simp add: supportedPairs_def samplePair_def)

lemma supportedPairs_nonempty: "supportedPairs \<noteq> []"
  by (simp add: supportedPairs_def)

lemma settle_sample:
  assumes "i < length cs" and "cs ! i = \<lparr> remaining = supportedPairs, phase = AwaitingScan \<rparr>"
  shows "step (ScanSettles i sampleChain 0 strongSignal approval)
           \<lparr> isRunning = True, cycles = cs \<rparr>
         = Some \<lparr> isRunning = True, cycles = cs[i := executingWETH] \<rparr>"
  using assms strong_shouldExecute
  by (simp add: step.simps hd_supportedPairs supportedPairs_nonempty sample_scan Let_def
        executingWETH_def)
     (simp add: sampleOpportunity_def)

lemma run_singleScan:
  "run singleScan started = Some \<lparr> isRunning = True, cycles = [executingWETH] \<rparr>"
  by (simp add: singleScan_def started_def step.simps(1) settle_sample)

lemma run_overlappingScans:
  "run overlappingScans started
     = Some \<lparr> isRunning = True, cycles = [executingWETH, executingWETH] \<rparr>"
  by (simp add: overlappingScans_def started_def step.simps(1) settle_sample)

theorem in_flight_bounded_by_cycles_witness:
  "run singleScan started = Some \<lparr> isRunning = True, cycles = [executingWETH] \<rparr>
   \<and> inFlight \<lparr> isRunning = True, cycles = [executingWETH] \<rparr> WETH \<le> 1"
  using in_flight_bounded_by_cycles [OF run_singleScan, of WETH] run_singleScan
  by (simp add: singleScan_def)

text \<open>
  The timer fires twice before the first scan has settled; both cycles find the sample
  opportunity for the first pair and both call \<open>executeArbitrage\<close> for the same asset.
\<close>

theorem two_executions_in_flight:
  "run overlappingScans started
     = Some \<lparr> isRunning = True, cycles = [executingWETH, executingWETH] \<rparr>
   \<and> inFlight \<lparr> isRunning = True, cycles = [executingWETH, executingWETH] \<rparr> WETH = 2"
  by (simp add: run_overlappingScans inFlight_def executingWETH_def)

end
